theory Spec2Isabelle
  imports Main "HOL-Library.AList"
begin

section \<open>The room manager (utils/roomManager)\<close>

text \<open>
  The module keeps one object \<open>rooms\<close>, from room id to an array of socket ids.
  It is modelled as a map; the array is a list, since \<open>push\<close> appends and nothing
  removes duplicates.

  \<open>rooms\<close> is created by the object literal \<open>{}\<close>, so a read \<open>rooms[roomId]\<close>
  of a name that the object does not own falls through to \<open>Object.prototype\<close>.
  For the twelve names that the prototype defines the value read is a function (or the
  prototype object itself for \<open>__proto__\<close>): it is truthy, so the array is not
  created, and it has no \<open>push\<close>, so the call throws a \<open>TypeError\<close>.
\<close>

type_synonym socket_id = string
type_synonym room_id = string
type_synonym Rooms = "room_id \<rightharpoonup> socket_id list"

datatype js_error = TypeError

definition object_prototype_names :: "string list" where
  "object_prototype_names =
     [''constructor'', ''__defineGetter__'', ''__defineSetter__'', ''hasOwnProperty'',
      ''__lookupGetter__'', ''__lookupSetter__'', ''isPrototypeOf'',
      ''propertyIsEnumerable'', ''toString'', ''valueOf'', ''__proto__'',
      ''toLocaleString'']"

definition addUserToRoom ::
    "room_id \<Rightarrow> socket_id \<Rightarrow> Rooms \<Rightarrow> js_error + (socket_id list \<times> Rooms)" where
  "addUserToRoom roomId socketId rooms =
     (case rooms roomId of
        None \<Rightarrow>
          if roomId \<in> set object_prototype_names then Inl TypeError
          else
            let room = [] @ [socketId]
            in Inr (filter (\<lambda>id. id \<noteq> socketId) room, rooms(roomId \<mapsto> room))
      | Some members \<Rightarrow>
          let room = members @ [socketId]
          in Inr (filter (\<lambda>id. id \<noteq> socketId) room, rooms(roomId \<mapsto> room)))"

text \<open>
  \<open>removeUserFromRoom\<close> loops over the keys the object owns and replaces each array
  by its filtered copy; each iteration touches its own key only, so the loop is the
  pointwise update of the map.
\<close>

definition removeUserFromRoom :: "socket_id \<Rightarrow> Rooms \<Rightarrow> Rooms" where
  "removeUserFromRoom socketId rooms =
     (\<lambda>roomId. map_option (filter (\<lambda>id. id \<noteq> socketId)) (rooms roomId))"

definition getRooms :: "Rooms \<Rightarrow> Rooms" where
  "getRooms rooms = rooms"

text \<open>A run of calls on the module, stopping at the first call that throws.\<close>

datatype room_call = AddUser room_id socket_id | RemoveUser socket_id

fun room_calls :: "room_call list \<Rightarrow> Rooms \<Rightarrow> js_error + Rooms" where
  "room_calls [] rooms = Inr rooms"
| "room_calls (AddUser roomId socketId # cs) rooms =
     (case addUserToRoom roomId socketId rooms of
        Inl e \<Rightarrow> Inl e
      | Inr (others, rooms') \<Rightarrow> room_calls cs rooms')"
| "room_calls (RemoveUser socketId # cs) rooms =
     room_calls cs (removeUserFromRoom socketId rooms)"


section \<open>The database (config/database)\<close>

text \<open>
  The two tables the meeting routes read and write, as lists of rows. Columns carry
  the prefix of their table (\<open>m_\<close> for \<open>meetings\<close>, \<open>p_\<close> for
  \<open>meeting_participants\<close>). The serial \<open>id\<close> of a participant row is never read
  and is left out. \<open>NOW()\<close> is a parameter of each statement.
\<close>

type_synonym timestamp = nat

record meeting_row =
  m_id :: string
  m_host_id :: int
  m_title :: string
  m_status :: string
  m_max_participants :: int
  m_created_at :: timestamp
  m_ended_at :: "timestamp option"

record participant_row =
  p_meeting_id :: string
  p_user_id :: int
  p_socket_id :: "string option"
  p_joined_at :: timestamp
  p_left_at :: "timestamp option"

record database =
  meetings :: "meeting_row list"
  meeting_participants :: "participant_row list"

text \<open>\<open>SELECT ... FROM meetings m WHERE m.id = $1\<close>: the rows of the result.\<close>

definition select_meeting :: "database \<Rightarrow> string \<Rightarrow> meeting_row list" where
  "select_meeting d meetingId = filter (\<lambda>m. m_id m = meetingId) (meetings d)"

text \<open>
  \<open>SELECT COUNT(*) FROM meeting_participants WHERE meeting_id = m.id AND left_at IS NULL\<close>.
\<close>

definition current_participants :: "database \<Rightarrow> string \<Rightarrow> nat" where
  "current_participants d meetingId =
     length (filter (\<lambda>p. p_meeting_id p = meetingId \<and> p_left_at p = None)
       (meeting_participants d))"

text \<open>
  \<open>INSERT INTO meeting_participants (meeting_id, user_id) VALUES ($1, $2)
  ON CONFLICT (meeting_id, user_id) DO NOTHING\<close>: the other columns take their defaults.
\<close>

definition insert_participant :: "string \<Rightarrow> int \<Rightarrow> timestamp \<Rightarrow> database \<Rightarrow> database" where
  "insert_participant meetingId userId now d =
     (if list_ex (\<lambda>p. p_meeting_id p = meetingId \<and> p_user_id p = userId)
           (meeting_participants d)
      then d
      else d\<lparr>meeting_participants := meeting_participants d @
             [\<lparr>p_meeting_id = meetingId, p_user_id = userId, p_socket_id = None,
               p_joined_at = now, p_left_at = None\<rparr>]\<rparr>)"

text \<open>
  \<open>SELECT * FROM meeting_participants WHERE meeting_id = $1 AND user_id = $2\<close>.
\<close>

definition select_participant :: "database \<Rightarrow> string \<Rightarrow> int \<Rightarrow> participant_row list" where
  "select_participant d meetingId userId =
     filter (\<lambda>p. p_meeting_id p = meetingId \<and> p_user_id p = userId) (meeting_participants d)"

text \<open>
  \<open>INSERT INTO meeting_participants (meeting_id, user_id, socket_id) VALUES ($1, $2, $3)
  ON CONFLICT (meeting_id, user_id)
  DO UPDATE SET socket_id = $3, joined_at = NOW(), left_at = NULL\<close>: the row in
  conflict is updated, and a new row is added when there is none.
\<close>

fun upsert_row ::
    "string \<Rightarrow> int \<Rightarrow> socket_id \<Rightarrow> timestamp \<Rightarrow> participant_row list \<Rightarrow> participant_row list" where
  "upsert_row meetingId userId sid now [] =
     [\<lparr>p_meeting_id = meetingId, p_user_id = userId, p_socket_id = Some sid,
       p_joined_at = now, p_left_at = None\<rparr>]"
| "upsert_row meetingId userId sid now (p # ps) =
     (if p_meeting_id p = meetingId \<and> p_user_id p = userId
      then p\<lparr>p_socket_id := Some sid, p_joined_at := now, p_left_at := None\<rparr> # ps
      else p # upsert_row meetingId userId sid now ps)"

definition upsert_participant ::
    "string \<Rightarrow> int \<Rightarrow> socket_id \<Rightarrow> timestamp \<Rightarrow> database \<Rightarrow> database" where
  "upsert_participant meetingId userId sid now d =
     d\<lparr>meeting_participants := upsert_row meetingId userId sid now (meeting_participants d)\<rparr>"

text \<open>
  \<open>SELECT socket_id, user_id FROM meeting_participants
  WHERE meeting_id = $1 AND left_at IS NULL AND socket_id != $2\<close>, mapped to the socket
  ids. A row whose \<open>socket_id\<close> is null does not pass the comparison.
\<close>

definition select_peers :: "database \<Rightarrow> string \<Rightarrow> socket_id \<Rightarrow> socket_id list" where
  "select_peers d meetingId sid =
     List.map_filter
       (\<lambda>p. case p_socket_id p of
               None \<Rightarrow> None
             | Some s \<Rightarrow>
                 if p_meeting_id p = meetingId \<and> p_left_at p = None \<and> s \<noteq> sid
                 then Some s else None)
       (meeting_participants d)"

text \<open>\<open>UPDATE meetings SET status = 'ended', ended_at = NOW() WHERE id = $2\<close>.\<close>

definition update_meeting_ended :: "string \<Rightarrow> timestamp \<Rightarrow> database \<Rightarrow> database" where
  "update_meeting_ended meetingId now d =
     d\<lparr>meetings :=
         map (\<lambda>m. if m_id m = meetingId
                   then m\<lparr>m_status := ''ended'', m_ended_at := Some now\<rparr> else m)
           (meetings d)\<rparr>"

text \<open>
  \<open>UPDATE meeting_participants SET left_at = NOW() WHERE meeting_id = $1 AND left_at IS NULL\<close>.
\<close>

definition update_all_left :: "string \<Rightarrow> timestamp \<Rightarrow> database \<Rightarrow> database" where
  "update_all_left meetingId now d =
     d\<lparr>meeting_participants :=
         map (\<lambda>p. if p_meeting_id p = meetingId \<and> p_left_at p = None
                   then p\<lparr>p_left_at := Some now\<rparr> else p)
           (meeting_participants d)\<rparr>"

text \<open>
  \<open>UPDATE meeting_participants SET left_at = NOW() WHERE meeting_id = $1 AND user_id = $2\<close>.
\<close>

definition update_user_left :: "string \<Rightarrow> int \<Rightarrow> timestamp \<Rightarrow> database \<Rightarrow> database" where
  "update_user_left meetingId userId now d =
     d\<lparr>meeting_participants :=
         map (\<lambda>p. if p_meeting_id p = meetingId \<and> p_user_id p = userId
                   then p\<lparr>p_left_at := Some now\<rparr> else p)
           (meeting_participants d)\<rparr>"


section \<open>The meeting routes (routes/meeting)\<close>

text \<open>
  Each route runs behind \<open>authenticateToken\<close>, which sets \<open>req.userId\<close>; the model
  takes that user id as a parameter. A route answers with a status code and a JSON
  body: an error body is \<open>{error: message}\<close>. The \<open>catch\<close> branch of a route
  answers 500 when the database driver throws; the tables here are values of the
  state and their statements always complete, so that branch is not reached.
\<close>

datatype api_error = ApiError nat string

record join_reply =
  message :: string
  meeting_id :: string
  meeting_title :: string
  isHost :: bool

text \<open>
  The join route awaits two statements, the \<open>SELECT\<close> with the count and then the
  \<open>INSERT\<close>, outside any transaction: while it waits for the first, other requests
  run. What they do to the database between the two statements is the parameter
  \<open>others\<close>; it is \<open>id\<close> for a request that runs alone.
\<close>

definition join_meeting ::
    "int \<Rightarrow> string \<Rightarrow> timestamp \<Rightarrow> (database \<Rightarrow> database) \<Rightarrow> database \<Rightarrow>
       (api_error + join_reply) \<times> database" where
  "join_meeting userId meetingId now others d =
     (case select_meeting d meetingId of
        [] \<Rightarrow> (Inl (ApiError 404 ''Meeting not found''), d)
      | meeting # _ \<Rightarrow>
          if m_status meeting = ''ended''
          then (Inl (ApiError 400 ''Meeting has ended''), d)
          else if int (current_participants d meetingId) \<ge> m_max_participants meeting
          then (Inl (ApiError 400 ''Meeting is full''), d)
          else
            (Inr \<lparr>message = ''Authorized to join meeting'', meeting_id = m_id meeting,
                  meeting_title = m_title meeting, isHost = (m_host_id meeting = userId)\<rparr>,
             insert_participant meetingId userId now (others d)))"

definition end_meeting ::
    "int \<Rightarrow> string \<Rightarrow> timestamp \<Rightarrow> timestamp \<Rightarrow> database \<Rightarrow> (api_error + string) \<times> database" where
  "end_meeting userId meetingId now1 now2 d =
     (case map m_host_id (select_meeting d meetingId) of
        [] \<Rightarrow> (Inl (ApiError 404 ''Meeting not found''), d)
      | host_id # _ \<Rightarrow>
          if host_id \<noteq> userId
          then (Inl (ApiError 403 ''Only host can end the meeting''), d)
          else
            (Inr ''Meeting ended successfully'',
             update_all_left meetingId now2 (update_meeting_ended meetingId now1 d)))"

definition kick_participant ::
    "int \<Rightarrow> string \<Rightarrow> int \<Rightarrow> timestamp \<Rightarrow> database \<Rightarrow> (api_error + string) \<times> database" where
  "kick_participant requester meetingId userId now d =
     (case map m_host_id (select_meeting d meetingId) of
        [] \<Rightarrow> (Inl (ApiError 404 ''Meeting not found''), d)
      | host_id # _ \<Rightarrow>
          if host_id \<noteq> requester
          then (Inl (ApiError 403 ''Only host can kick participants''), d)
          else
            (Inr ''Participant kicked successfully'',
             update_user_left meetingId userId now d))"


section \<open>Socket.IO: sockets, rooms and broadcasts\<close>

text \<open>
  The handlers deliver through the Socket.IO server, not through the room manager.
  What they use of it is modelled here, after the library's adapter: the connected
  sockets (in connection order) and, for each socket, the set of rooms it has joined. On
  connection a socket joins the room named by its own id; before the \<open>disconnect\<close>
  event is dispatched the socket has left every room and is no longer among the
  connected sockets.

  A message argument is a JSON value. An object keeps its keys in order; writing a key
  that exists replaces its value in place and a new key goes last, which is
  \<open>AList.update\<close>.
\<close>

datatype jsval =
    JUndefined | JNull | JBool bool | JNum int | JStr string
  | JArr "jsval list" | JObj "(string \<times> jsval) list"

type_synonym obj = "(string \<times> jsval) list"

definition field :: "obj \<Rightarrow> string \<Rightarrow> jsval" where
  "field object key = (case map_of object key of None \<Rightarrow> JUndefined | Some v \<Rightarrow> v)"

text \<open>Object spread \<open>{...acc, ...object}\<close>: the entries of \<open>object\<close> written onto \<open>acc\<close> in order.\<close>

fun spread :: "obj \<Rightarrow> obj \<Rightarrow> obj" where
  "spread acc [] = acc"
| "spread acc ((key, v) # entries) = spread (AList.update key v acc) entries"

record sio =
  sockets :: "socket_id list"
  joined :: "socket_id \<Rightarrow> room_id set"

record emitted =
  recipient :: socket_id
  event :: string
  arg :: jsval

text \<open>
  \<open>to(room)\<close> takes one room or an array of rooms. The adapter then visits the
  members of each of these rooms once, skipping the excepted sockets; with no room at
  all it visits every connected socket. Rooms are joined under string names only
  (\<open>roomId: string\<close>, and socket ids), so a room value that is not a string has no
  member.
\<close>

definition to_rooms :: "jsval \<Rightarrow> jsval list" where
  "to_rooms room = (case room of JArr rs \<Rightarrow> rs | _ \<Rightarrow> [room])"

definition member_of :: "sio \<Rightarrow> socket_id \<Rightarrow> jsval \<Rightarrow> bool" where
  "member_of s sid room = (case room of JStr r \<Rightarrow> r \<in> joined s sid | _ \<Rightarrow> False)"

definition recipients :: "sio \<Rightarrow> jsval list \<Rightarrow> socket_id list \<Rightarrow> socket_id list" where
  "recipients s rs except =
     filter (\<lambda>sid. sid \<notin> set except \<and> (rs = [] \<or> list_ex (member_of s sid) rs))
       (sockets s)"

definition emit_to :: "socket_id list \<Rightarrow> string \<Rightarrow> jsval \<Rightarrow> emitted list" where
  "emit_to sids ev a = map (\<lambda>sid. \<lparr>recipient = sid, event = ev, arg = a\<rparr>) sids"

text \<open>The library's part of a connection, of \<open>socket.join\<close> and of a disconnect.\<close>

definition sio_connect :: "socket_id \<Rightarrow> sio \<Rightarrow> sio" where
  "sio_connect sid s = s\<lparr>sockets := sockets s @ [sid], joined := (joined s)(sid := {sid})\<rparr>"

definition sio_join :: "socket_id \<Rightarrow> room_id \<Rightarrow> sio \<Rightarrow> sio" where
  "sio_join sid roomId s = s\<lparr>joined := (joined s)(sid := insert roomId (joined s sid))\<rparr>"

definition sio_close :: "socket_id \<Rightarrow> sio \<Rightarrow> sio" where
  "sio_close sid s = s\<lparr>sockets := removeAll sid (sockets s), joined := (joined s)(sid := {})\<rparr>"

definition sio_ok :: "sio \<Rightarrow> bool" where
  "sio_ok s = (distinct (sockets s) \<and> list_all (\<lambda>sid. sid \<in> joined s sid) (sockets s))"


section \<open>The server and its socket handlers (socketHandlers)\<close>

text \<open>
  The server's state: the database, the room manager's \<open>rooms\<close> and the Socket.IO
  server \<open>io\<close>. A handler returns the messages it emits and the new state. The
  payload of a signalling or screen-sharing message is a JSON object. Calls of the
  logger are left out.

  These are the handlers of the first version of \<open>socketHandlers.ts\<close>, which keeps
  the rooms in the room manager. The signalling and screen-sharing handlers have the
  same bodies in the second version, which is modelled further down.
\<close>

record server =
  db :: database
  rooms :: Rooms
  io :: sio

text \<open>
  The \<open>connection\<close> handler logs and registers the handlers below; the state
  changes by the library's part only.
\<close>

definition connection :: "socket_id \<Rightarrow> server \<Rightarrow> server" where
  "connection sid st = st\<lparr>io := sio_connect sid (io st)\<rparr>"

definition join_room ::
    "socket_id \<Rightarrow> room_id \<Rightarrow> string \<Rightarrow> server \<Rightarrow> js_error + (emitted list \<times> server)" where
  "join_room sid roomId userId st =
     (let io1 = sio_join sid roomId (io st) in
      case addUserToRoom roomId sid (rooms st) of
        Inl e \<Rightarrow> Inl e
      | Inr (otherUser, rooms1) \<Rightarrow>
          Inr (emit_to [sid] ''all-users'' (JArr (map JStr otherUser)) @
               emit_to (recipients io1 (to_rooms (JStr roomId)) [sid]) ''user-joined'' (JStr sid),
               st\<lparr>rooms := rooms1, io := io1\<rparr>))"

datatype signal = Offer | Answer | IceCandidate

fun signal_event :: "signal \<Rightarrow> string" where
  "signal_event Offer = ''offer''"
| "signal_event Answer = ''answer''"
| "signal_event IceCandidate = ''ice-candidate''"

text \<open>
  The three signalling handlers have one body:
  \<open>io.to(payload.target).emit(name, {...payload, caller: socket.id})\<close>.
\<close>

definition on_signal :: "signal \<Rightarrow> socket_id \<Rightarrow> obj \<Rightarrow> server \<Rightarrow> emitted list \<times> server" where
  "on_signal k sid payload st =
     (emit_to (recipients (io st) (to_rooms (field payload ''target'')) [])
        (signal_event k)
        (JObj (AList.update ''caller'' (JStr sid) (spread [] payload))),
      st)"

datatype screen_sharing = Started | Stopped

fun screen_sharing_event :: "screen_sharing \<Rightarrow> string" where
  "screen_sharing_event Started = ''screen-sharing-started''"
| "screen_sharing_event Stopped = ''screen-sharing-stopped''"

text \<open>
  The two screen-sharing handlers have one body:
  \<open>socket.to(data.roomId).emit(name, {userId: socket.id, ...data})\<close>.
\<close>

definition on_screen_sharing ::
    "screen_sharing \<Rightarrow> socket_id \<Rightarrow> obj \<Rightarrow> server \<Rightarrow> emitted list \<times> server" where
  "on_screen_sharing k sid data st =
     (emit_to (recipients (io st) (to_rooms (field data ''roomId'')) [sid])
        (screen_sharing_event k)
        (JObj (spread [(''userId'', JStr sid)] data)),
      st)"

definition disconnect :: "socket_id \<Rightarrow> server \<Rightarrow> emitted list \<times> server" where
  "disconnect sid st =
     (let io1 = sio_close sid (io st);
          rooms1 = removeUserFromRoom sid (rooms st)
      in (emit_to (recipients io1 [] [sid]) ''user-left'' (JStr sid),
          st\<lparr>rooms := rooms1, io := io1\<rparr>))"

text \<open>
  The meeting routes import the database module only; they reach neither the room
  manager nor the Socket.IO server, so a request leaves both as they are and emits
  nothing.
\<close>

definition http :: "(database \<Rightarrow> 'r \<times> database) \<Rightarrow> server \<Rightarrow> 'r \<times> emitted list \<times> server" where
  "http route st = (let (reply, d) = route (db st) in (reply, [], st\<lparr>db := d\<rparr>))"


section \<open>The database-backed join-room handler (socketHandlers, second version)\<close>

text \<open>
  The sources hold a second version of \<open>socketHandlers.ts\<close>, which keeps the
  participants in the database and not in the room manager. Its \<open>join-room\<close> handler
  looks the meeting up, checks its status and capacity, checks that the user is the host
  or has a participant row, upserts the row with the socket's id, joins the Socket.IO
  room and answers with the socket ids of the other live participants. A refusal is an
  \<open>error\<close> event to the socket. The socket's \<open>userId\<close> is set by the
  authentication middleware on connection and is a parameter; \<open>socket_meetingId\<close> is the
  attribute \<open>meetingId\<close> that the handler attaches to the socket.

  The handler awaits four statements, and other requests run while it waits. What they
  do to the state between two steps of the handler is a parameter, one function for each
  gap: after the meeting query, after the participant query, after the upsert, after
  \<open>socket.join\<close>, and after the query for the peers. A handler that runs alone has
  \<open>id\<close> in every gap. A refusal writes nothing; the state returned with it is the one
  that the refusing query read. The \<open>catch\<close> branch (\<open>Failed to join room\<close>)
  needs a statement that throws and is not reached here.
\<close>

record session = server +
  socket_meetingId :: "socket_id \<rightharpoonup> room_id"

record gaps =
  gap1 :: "session \<Rightarrow> session"
  gap2 :: "session \<Rightarrow> session"
  gap3 :: "session \<Rightarrow> session"
  gap4 :: "session \<Rightarrow> session"
  gap5 :: "session \<Rightarrow> session"

definition alone :: gaps where
  "alone = \<lparr>gap1 = id, gap2 = id, gap3 = id, gap4 = id, gap5 = id\<rparr>"

definition emit_error :: "socket_id \<Rightarrow> string \<Rightarrow> emitted list" where
  "emit_error sid msg = emit_to [sid] ''error'' (JObj [(''message'', JStr msg)])"

text \<open>
  The first part of the handler, up to the upsert: the refusal with the state it leaves,
  or the state right after the upsert.
\<close>

definition join_room_admit ::
    "gaps \<Rightarrow> socket_id \<Rightarrow> int \<Rightarrow> room_id \<Rightarrow> timestamp \<Rightarrow> session \<Rightarrow>
       (string \<times> session) + session" where
  "join_room_admit g sid userId roomId now st =
     (case select_meeting (db st) roomId of
        [] \<Rightarrow> Inl (''Meeting not found'', st)
      | meeting # _ \<Rightarrow>
          if m_status meeting = ''ended'' then Inl (''Meeting has ended'', st)
          else if int (current_participants (db st) roomId) \<ge> m_max_participants meeting
          then Inl (''Meeting is full'', st)
          else
            let st1 = gap1 g st;
                participantResult = select_participant (db st1) roomId userId;
                isHost = (m_host_id meeting = userId)
            in if participantResult = [] \<and> \<not> isHost
               then Inl (''Not authorized to join this meeting'', st1)
               else
                 let st2 = gap2 g st1
                 in Inr (st2\<lparr>db := upsert_participant roomId userId sid now (db st2)\<rparr>))"

definition join_room_db ::
    "gaps \<Rightarrow> socket_id \<Rightarrow> int \<Rightarrow> room_id \<Rightarrow> timestamp \<Rightarrow> session \<Rightarrow> emitted list \<times> session" where
  "join_room_db g sid userId roomId now st =
     (case join_room_admit g sid userId roomId now st of
        Inl (msg, st1) \<Rightarrow> (emit_error sid msg, st1)
      | Inr st3 \<Rightarrow>
          let st4 = gap3 g st3;
              st5 = st4\<lparr>io := sio_join sid roomId (io st4),
                        socket_meetingId := (socket_meetingId st4)(sid \<mapsto> roomId)\<rparr>;
              st6 = gap4 g st5;
              otherUsers = select_peers (db st6) roomId sid;
              st7 = gap5 g st6
          in (emit_to [sid] ''all-users'' (JArr (map JStr otherUsers)) @
              emit_to (recipients (io st7) (to_rooms (JStr roomId)) [sid])
                ''user-joined'' (JStr sid),
              st7))"


section \<open>An example state\<close>

text \<open>
  Three sockets are connected; \<open>A\<close> and \<open>B\<close> have sent \<open>join-room\<close> for
  room \<open>R\<close>, \<open>C\<close> has joined nothing. Meeting \<open>R\<close> (host 1, capacity 2) has
  two live participants; meeting \<open>S\<close> (host 1, capacity 10) has one participant,
  user 2, who has left.
\<close>

definition demo_db :: database where
  "demo_db =
     \<lparr>meetings =
        [\<lparr>m_id = ''R'', m_host_id = 1, m_title = ''standup'', m_status = ''active'',
          m_max_participants = 2, m_created_at = 0, m_ended_at = None\<rparr>,
         \<lparr>m_id = ''S'', m_host_id = 1, m_title = ''review'', m_status = ''active'',
          m_max_participants = 10, m_created_at = 3, m_ended_at = None\<rparr>],
      meeting_participants =
        [\<lparr>p_meeting_id = ''R'', p_user_id = 1, p_socket_id = None, p_joined_at = 1,
          p_left_at = None\<rparr>,
         \<lparr>p_meeting_id = ''R'', p_user_id = 2, p_socket_id = None, p_joined_at = 2,
          p_left_at = None\<rparr>,
         \<lparr>p_meeting_id = ''S'', p_user_id = 2, p_socket_id = None, p_joined_at = 4,
          p_left_at = Some 5\<rparr>]\<rparr>"

text \<open>
  The example is reached from \<open>demo_start\<close>, which has the two meetings, no
  participant and no socket: users 1 and 2 join \<open>R\<close> at times 1 and 2, user 2 joins
  \<open>S\<close> at time 4 and is kicked from it by the host at time 5.
\<close>

definition demo_start :: server where
  "demo_start =
     \<lparr>db = \<lparr>meetings = meetings demo_db, meeting_participants = []\<rparr>,
      rooms = Map.empty,
      io = \<lparr>sockets = [], joined = (\<lambda>sid. {})\<rparr>\<rparr>"

text \<open>
  Two more states: \<open>demo_db1\<close> is the database after user 1 alone has joined \<open>R\<close>,
  and \<open>demo_session\<close> is a server of the database-backed handlers over \<open>demo_db\<close>,
  where the three sockets are connected and none has joined a room.
\<close>

definition demo_db1 :: database where
  "demo_db1 =
     \<lparr>meetings = meetings demo_db,
      meeting_participants =
        [\<lparr>p_meeting_id = ''R'', p_user_id = 1, p_socket_id = None, p_joined_at = 1,
          p_left_at = None\<rparr>]\<rparr>"

definition demo_session :: session where
  "demo_session =
     \<lparr>db = demo_db, rooms = Map.empty,
      io = \<lparr>sockets = [''A'', ''B'', ''C''],
            joined = (\<lambda>sid. {})(''A'' := {''A''}, ''B'' := {''B''}, ''C'' := {''C''})\<rparr>,
      socket_meetingId = Map.empty\<rparr>"

definition demo_io :: sio where
  "demo_io =
     \<lparr>sockets = [''A'', ''B'', ''C''],
      joined = (\<lambda>sid. {})(''A'' := {''A'', ''R''}, ''B'' := {''B'', ''R''}, ''C'' := {''C''})\<rparr>"

definition demo_server :: server where
  "demo_server = \<lparr>db = demo_db, rooms = [''R'' \<mapsto> [''A'', ''B'']], io = demo_io\<rparr>"


section \<open>Facts about the room manager\<close>

lemma removeUserFromRoom_apply:
  "removeUserFromRoom sid rms r = map_option (filter (\<lambda>id. id \<noteq> sid)) (rms r)"
  by (simp add: removeUserFromRoom_def)

lemma dom_removeUserFromRoom: "dom (removeUserFromRoom sid rms) = dom rms"
  by (auto simp: removeUserFromRoom_def dom_def)

lemma addUserToRoom_Inr:
  assumes "addUserToRoom r sid rms = Inr (others, rms1)"
  shows "rms1 = rms(r \<mapsto> (case rms r of None \<Rightarrow> [] | Some ms \<Rightarrow> ms) @ [sid])"
    and "others = filter (\<lambda>id. id \<noteq> sid) (case rms r of None \<Rightarrow> [] | Some ms \<Rightarrow> ms)"
  using assms by (auto simp: addUserToRoom_def Let_def split: option.splits if_splits)

lemma addUserToRoom_dom:
  "addUserToRoom r sid rms = Inr (others, rms1) \<Longrightarrow> dom rms1 = insert r (dom rms)"
  by (auto dest!: addUserToRoom_Inr(1))

lemma room_calls_dom:
  "room_calls cs rms = Inr rms1 \<Longrightarrow> dom rms \<subseteq> dom rms1"
proof (induction cs arbitrary: rms)
  case Nil
  then show ?case by simp
next
  case (Cons c cs)
  show ?case
  proof (cases c)
    case (AddUser r sid)
    with Cons.prems obtain others rmsa where
      a: "addUserToRoom r sid rms = Inr (others, rmsa)" and b: "room_calls cs rmsa = Inr rms1"
      by (auto split: sum.splits)
    from addUserToRoom_dom[OF a] Cons.IH[OF b] show ?thesis by auto
  next
    case (RemoveUser sid)
    with Cons.prems have "room_calls cs (removeUserFromRoom sid rms) = Inr rms1" by simp
    from Cons.IH[OF this] show ?thesis by (simp add: dom_removeUserFromRoom)
  qed
qed

text \<open>
  Claim C10. Once \<open>addUserToRoom\<close> has added a room id as a key of \<open>rooms\<close>, the id
  stays a key through every later run of \<open>addUserToRoom\<close> and \<open>removeUserFromRoom\<close>
  calls: \<open>removeUserFromRoom\<close> filters the arrays and deletes no entry. A room whose
  only members were the removed socket is left as the empty array, and \<open>getRooms\<close>
  still shows it.
\<close>

theorem room_key_persists:
  assumes add: "addUserToRoom roomId socketId rms = Inr (others, rms1)"
      and run: "room_calls cs rms1 = Inr rms2"
  shows "roomId \<in> dom (getRooms rms1) \<and> roomId \<in> dom (getRooms rms2) \<and>
         roomId \<in> dom (getRooms (removeUserFromRoom sid rms2)) \<and>
         (\<forall>members. rms2 roomId = Some members \<longrightarrow> set members \<subseteq> {sid} \<longrightarrow>
            getRooms (removeUserFromRoom sid rms2) roomId = Some [])"
proof -
  have 1: "roomId \<in> dom rms1" using addUserToRoom_dom[OF add] by simp
  have 2: "roomId \<in> dom rms2" using room_calls_dom[OF run] 1 by auto
  have 3: "roomId \<in> dom (removeUserFromRoom sid rms2)"
    using 2 by (simp add: dom_removeUserFromRoom)
  have 4: "getRooms (removeUserFromRoom sid rms2) roomId = Some []"
    if "rms2 roomId = Some members" "set members \<subseteq> {sid}" for members
  proof -
    have "filter (\<lambda>id. id \<noteq> sid) members = []"
      using that(2) by (auto simp: filter_empty_conv)
    then show ?thesis using that(1) by (simp add: getRooms_def removeUserFromRoom_def)
  qed
  show ?thesis using 1 2 3 4 by (simp add: getRooms_def)
qed

theorem room_key_persists_witness:
  "addUserToRoom ''r'' ''a'' Map.empty = Inr ([], [''r'' \<mapsto> [''a'']]) \<and>
   room_calls [AddUser ''q'' ''b'', RemoveUser ''a''] [''r'' \<mapsto> [''a'']] =
     Inr (removeUserFromRoom ''a'' [''r'' \<mapsto> [''a''], ''q'' \<mapsto> [''b'']]) \<and>
   ''r'' \<in> dom (getRooms (removeUserFromRoom ''a'' [''r'' \<mapsto> [''a''], ''q'' \<mapsto> [''b'']])) \<and>
   getRooms (removeUserFromRoom ''a'' [''r'' \<mapsto> [''a''], ''q'' \<mapsto> [''b'']]) ''r'' = Some []"
proof -
  have a: "addUserToRoom ''r'' ''a'' Map.empty = Inr ([], [''r'' \<mapsto> [''a'']])"
    by (simp add: addUserToRoom_def object_prototype_names_def)
  have b: "room_calls [AddUser ''q'' ''b'', RemoveUser ''a''] [''r'' \<mapsto> [''a'']] =
     Inr (removeUserFromRoom ''a'' [''r'' \<mapsto> [''a''], ''q'' \<mapsto> [''b'']])"
    by (simp add: addUserToRoom_def object_prototype_names_def)
  have c: "getRooms (removeUserFromRoom ''a'' [''r'' \<mapsto> [''a''], ''q'' \<mapsto> [''b'']]) ''r'' = Some []"
    by (simp add: getRooms_def removeUserFromRoom_def)
  from room_key_persists[OF a b, of "''a''"] a b c show ?thesis by blast
qed

text \<open>
  Claim C4. After the \<open>disconnect\<close> handler has run for a connection, the
  connection's id is in no room's array of the room manager: every occurrence, also a
  repeated one, is filtered out of every room.
\<close>

theorem disconnect_purges_registry:
  "(\<forall>roomId members. rooms (snd (disconnect sid st)) roomId = Some members \<longrightarrow>
       sid \<notin> set members \<and> count_list members sid = 0) \<and>
   rooms (snd (disconnect sid st)) = removeUserFromRoom sid (rooms st)"
  by (auto simp: disconnect_def Let_def removeUserFromRoom_def)

theorem disconnect_purges_registry_witness:
  "rooms (snd (disconnect ''A''
      (demo_server\<lparr>rooms := [''R'' \<mapsto> [''A'', ''B'', ''A''], ''S'' \<mapsto> [''A'']]\<rparr>))) ''R'' =
     Some [''B''] \<and>
   rooms (snd (disconnect ''A''
      (demo_server\<lparr>rooms := [''R'' \<mapsto> [''A'', ''B'', ''A''], ''S'' \<mapsto> [''A'']]\<rparr>))) ''S'' =
     Some [] \<and>
   ''A'' \<notin> set [''B'']"
  using disconnect_purges_registry
    [of "''A''" "demo_server\<lparr>rooms := [''R'' \<mapsto> [''A'', ''B'', ''A''], ''S'' \<mapsto> [''A'']]\<rparr>"]
  by (simp add: removeUserFromRoom_def)

section \<open>Facts about the database statements and the example\<close>

lemma current_participants_insert_le:
  "current_participants (insert_participant m u now d) m \<le> Suc (current_participants d m)"
  by (simp add: current_participants_def insert_participant_def)

lemma current_participants_insert_other:
  "other \<noteq> m \<Longrightarrow>
     current_participants (insert_participant m u now d) other = current_participants d other"
  by (simp add: current_participants_def insert_participant_def)

lemma meetings_insert_participant:
  "meetings (insert_participant m u now d) = meetings d"
  by (simp add: insert_participant_def)

lemma select_meeting_insert_participant:
  "select_meeting (insert_participant m u now d) x = select_meeting d x"
  by (simp add: select_meeting_def meetings_insert_participant)

lemma insert_participant_has_row:
  "list_ex (\<lambda>p. p_meeting_id p = m \<and> p_user_id p = u)
     (meeting_participants (insert_participant m u now d))"
  by (simp add: insert_participant_def list_ex_iff)

lemma select_meeting_update_all_left:
  "select_meeting (update_all_left m now d) x = select_meeting d x"
  by (simp add: select_meeting_def update_all_left_def)

lemma select_meeting_ended:
  "select_meeting (update_meeting_ended m now d) m =
     map (\<lambda>r. r\<lparr>m_status := ''ended'', m_ended_at := Some now\<rparr>) (select_meeting d m)"
  by (simp add: select_meeting_def update_meeting_ended_def filter_map o_def)

lemma mark_left_all:
  "list_all (\<lambda>p. p_left_at p \<noteq> None)
     (filter (\<lambda>p. p_meeting_id p = m)
        (map (\<lambda>p. if p_meeting_id p = m \<and> p_left_at p = None
                  then p\<lparr>p_left_at := Some now\<rparr> else p) ps))"
  by (induction ps) simp_all

lemma left_after_update_all_left:
  "list_all (\<lambda>p. p_left_at p \<noteq> None)
     (filter (\<lambda>p. p_meeting_id p = m) (meeting_participants (update_all_left m now d)))"
  using mark_left_all[of m now "meeting_participants d"] by (simp add: update_all_left_def)

lemma current_participants_update_all_left:
  "current_participants (update_all_left m now d) m = 0"
  by (simp add: current_participants_def update_all_left_def filter_empty_conv)

lemma participants_update_meeting_ended:
  "meeting_participants (update_meeting_ended m now d) = meeting_participants d"
  by (simp add: update_meeting_ended_def)

lemma join_meeting_Inr:
  assumes "join_meeting userId meetingId now others d = (Inr reply, d1)"
  shows "\<exists>meeting rest.
           select_meeting d meetingId = meeting # rest \<and>
           m_status meeting \<noteq> ''ended'' \<and>
           int (current_participants d meetingId) < m_max_participants meeting \<and>
           d1 = insert_participant meetingId userId now (others d) \<and>
           reply = \<lparr>message = ''Authorized to join meeting'', meeting_id = m_id meeting,
                    meeting_title = m_title meeting, isHost = (m_host_id meeting = userId)\<rparr>"
  using assms by (auto simp: join_meeting_def split: list.splits if_splits)

lemma http_reply:
  "route (db st) = (reply, d) \<Longrightarrow> http route st = (reply, [], st\<lparr>db := d\<rparr>)"
  by (simp add: http_def)

lemma demo_select_R:
  "select_meeting demo_db ''R'' =
     [\<lparr>m_id = ''R'', m_host_id = 1, m_title = ''standup'', m_status = ''active'',
       m_max_participants = 2, m_created_at = 0, m_ended_at = None\<rparr>]"
  by (simp add: select_meeting_def demo_db_def)

lemma demo_select_S:
  "select_meeting demo_db ''S'' =
     [\<lparr>m_id = ''S'', m_host_id = 1, m_title = ''review'', m_status = ''active'',
       m_max_participants = 10, m_created_at = 3, m_ended_at = None\<rparr>]"
  by (simp add: select_meeting_def demo_db_def)

lemma demo_count_R: "current_participants demo_db ''R'' = 2"
  by (simp add: current_participants_def demo_db_def)

lemma demo_count_S: "current_participants demo_db ''S'' = 0"
  by (simp add: current_participants_def demo_db_def)


lemma db_demo_server: "db demo_server = demo_db"
  by (simp add: demo_server_def)

lemma join_room_accepts:
  assumes "roomId \<notin> set object_prototype_names \<or> rooms st roomId \<noteq> None"
  shows "\<exists>out st1. join_room sid roomId userId st = Inr (out, st1) \<and>
           db st1 = db st \<and>
           rooms st1 roomId =
             Some ((case rooms st roomId of None \<Rightarrow> [] | Some ms \<Rightarrow> ms) @ [sid])"
  using assms by (auto simp: join_room_def addUserToRoom_def Let_def split: option.splits)

lemma demo_db_reached:
  "snd (kick_participant 1 ''S'' 2 5
     (snd (join_meeting 2 ''S'' 4 id
       (snd (join_meeting 2 ''R'' 2 id
         (snd (join_meeting 1 ''R'' 1 id (db demo_start)))))))) = demo_db"
  by (simp add: demo_start_def demo_db_def join_meeting_def select_meeting_def
        current_participants_def insert_participant_def kick_participant_def
        update_user_left_def)

lemma demo_io_reached:
  "io (connection ''C'' (connection ''B'' (connection ''A'' demo_start))) =
     \<lparr>sockets = [''A'', ''B'', ''C''],
      joined = (\<lambda>sid. {})(''A'' := {''A''}, ''B'' := {''B''}, ''C'' := {''C''})\<rparr> \<and>
   sio_join ''B'' ''R'' (sio_join ''A'' ''R''
     (io (connection ''C'' (connection ''B'' (connection ''A'' demo_start))))) = demo_io"
  by (auto simp: demo_start_def demo_io_def connection_def sio_join_def sio_connect_def
        fun_eq_iff)

lemma demo_rooms_reached:
  "room_calls [AddUser ''R'' ''A'', AddUser ''R'' ''B''] (rooms demo_start) =
     Inr (rooms demo_server)"
  by (simp add: demo_start_def demo_server_def addUserToRoom_def object_prototype_names_def)

lemma demo_db1_reached: "snd (join_meeting 1 ''R'' 1 id (db demo_start)) = demo_db1"
  by (simp add: demo_start_def demo_db1_def join_meeting_def select_meeting_def demo_db_def
        current_participants_def insert_participant_def)

lemma demo1_select_R:
  "select_meeting demo_db1 ''R'' =
     [\<lparr>m_id = ''R'', m_host_id = 1, m_title = ''standup'', m_status = ''active'',
       m_max_participants = 2, m_created_at = 0, m_ended_at = None\<rparr>]"
  by (simp add: select_meeting_def demo_db1_def demo_db_def)

lemma demo1_count_R: "current_participants demo_db1 ''R'' = 1"
  by (simp add: current_participants_def demo_db1_def)

lemma demo1_count_S: "current_participants demo_db1 ''S'' = 0"
  by (simp add: current_participants_def demo_db1_def)

lemma db_demo_session: "db demo_session = demo_db"
  by (simp add: demo_session_def)

lemma gaps_alone:
  "gap1 alone = id" "gap2 alone = id" "gap3 alone = id" "gap4 alone = id" "gap5 alone = id"
  by (simp_all add: alone_def)

lemma demo1_join_2:
  "join_meeting 2 ''R'' 3 id demo_db1 =
     (Inr \<lparr>message = ''Authorized to join meeting'', meeting_id = ''R'',
           meeting_title = ''standup'', isHost = False\<rparr>,
      insert_participant ''R'' 2 3 demo_db1)"
  by (simp add: join_meeting_def demo1_select_R demo1_count_R)

lemma live_upsert_row_le:
  "length (filter (\<lambda>p. p_meeting_id p = m \<and> p_left_at p = None) (upsert_row m u sid now ps))
     \<le> Suc (length (filter (\<lambda>p. p_meeting_id p = m \<and> p_left_at p = None) ps))"
  by (induction ps) auto

lemma live_upsert_row_other:
  "other \<noteq> m \<Longrightarrow>
     filter (\<lambda>p. p_meeting_id p = other \<and> p_left_at p = None) (upsert_row m u sid now ps) =
     filter (\<lambda>p. p_meeting_id p = other \<and> p_left_at p = None) ps"
  by (induction ps) auto

lemma current_participants_upsert_le:
  "current_participants (upsert_participant m u sid now d) m \<le> Suc (current_participants d m)"
  by (simp add: current_participants_def upsert_participant_def live_upsert_row_le)

lemma current_participants_upsert_other:
  "other \<noteq> m \<Longrightarrow>
     current_participants (upsert_participant m u sid now d) other = current_participants d other"
  by (simp add: current_participants_def upsert_participant_def live_upsert_row_other)

lemma select_meeting_upsert_participant:
  "select_meeting (upsert_participant m u sid now d) x = select_meeting d x"
  by (simp add: select_meeting_def upsert_participant_def)

lemma upsert_row_absent:
  "filter (\<lambda>p. p_meeting_id p = m \<and> p_user_id p = u) ps = [] \<Longrightarrow>
     upsert_row m u sid now ps =
       ps @ [\<lparr>p_meeting_id = m, p_user_id = u, p_socket_id = Some sid,
               p_joined_at = now, p_left_at = None\<rparr>]"
  by (induction ps) (auto split: if_splits)

lemma upsert_row_present:
  "filter (\<lambda>p. p_meeting_id p = m \<and> p_user_id p = u) ps = q # qs \<Longrightarrow>
     filter (\<lambda>p. p_meeting_id p = m \<and> p_user_id p = u) (upsert_row m u sid now ps) =
       q\<lparr>p_socket_id := Some sid, p_joined_at := now, p_left_at := None\<rparr> # qs \<and>
     length (upsert_row m u sid now ps) = length ps"
  by (induction ps) (auto split: if_splits)

lemma upsert_row_others:
  "filter (\<lambda>p. \<not> (p_meeting_id p = m \<and> p_user_id p = u)) (upsert_row m u sid now ps) =
     filter (\<lambda>p. \<not> (p_meeting_id p = m \<and> p_user_id p = u)) ps"
  by (induction ps) auto

lemma upsert_row_hd:
  "\<exists>p ps. filter (\<lambda>p. p_meeting_id p = m \<and> p_user_id p = u) (upsert_row m u sid now rows) = p # ps \<and>
     p_socket_id p = Some sid \<and> p_joined_at p = now \<and> p_left_at p = None"
  by (induction rows) auto

lemma join_room_admit_cases:
  "join_room_admit g sid userId roomId now st =
     (case select_meeting (db st) roomId of
        [] \<Rightarrow> Inl (''Meeting not found'', st)
      | meeting # _ \<Rightarrow>
          if m_status meeting = ''ended'' then Inl (''Meeting has ended'', st)
          else if m_max_participants meeting \<le> int (current_participants (db st) roomId)
          then Inl (''Meeting is full'', st)
          else if select_participant (db (gap1 g st)) roomId userId = [] \<and>
                  m_host_id meeting \<noteq> userId
          then Inl (''Not authorized to join this meeting'', gap1 g st)
          else Inr ((gap2 g (gap1 g st))
                 \<lparr>db := upsert_participant roomId userId sid now (db (gap2 g (gap1 g st)))\<rparr>))"
  by (simp add: join_room_admit_def Let_def split: list.splits)

lemma join_room_admit_Inr:
  assumes "join_room_admit g sid userId roomId now st = Inr st3"
  shows "\<exists>meeting rest.
           select_meeting (db st) roomId = meeting # rest \<and>
           m_status meeting \<noteq> ''ended'' \<and>
           int (current_participants (db st) roomId) < m_max_participants meeting \<and>
           (m_host_id meeting = userId \<or>
            select_participant (db (gap1 g st)) roomId userId \<noteq> []) \<and>
           st3 = (gap2 g (gap1 g st))
                   \<lparr>db := upsert_participant roomId userId sid now (db (gap2 g (gap1 g st)))\<rparr>"
  using assms unfolding join_room_admit_cases
  by (auto split: list.splits if_splits)

lemma join_room_db_refusal:
  "join_room_admit g sid userId roomId now st = Inl (msg, st1) \<Longrightarrow>
     join_room_db g sid userId roomId now st = (emit_error sid msg, st1)"
  by (simp add: join_room_db_def)

lemma join_room_db_admitted:
  "join_room_admit g sid userId roomId now st = Inr st3 \<Longrightarrow>
     join_room_db g sid userId roomId now st =
       (emit_to [sid] ''all-users''
          (JArr (map JStr (select_peers
             (db (gap4 g ((gap3 g st3)\<lparr>io := sio_join sid roomId (io (gap3 g st3)),
                    socket_meetingId := (socket_meetingId (gap3 g st3))(sid \<mapsto> roomId)\<rparr>)))
             roomId sid))) @
        emit_to (recipients
             (io (gap5 g (gap4 g ((gap3 g st3)\<lparr>io := sio_join sid roomId (io (gap3 g st3)),
                    socket_meetingId := (socket_meetingId (gap3 g st3))(sid \<mapsto> roomId)\<rparr>))))
             (to_rooms (JStr roomId)) [sid])
          ''user-joined'' (JStr sid),
        gap5 g (gap4 g ((gap3 g st3)\<lparr>io := sio_join sid roomId (io (gap3 g st3)),
                    socket_meetingId := (socket_meetingId (gap3 g st3))(sid \<mapsto> roomId)\<rparr>)))"
  by (simp add: join_room_db_def Let_def)

lemma demo_admit_2_S:
  "join_room_admit alone ''C'' 2 ''S'' 9 demo_session =
     Inr (demo_session\<lparr>db := upsert_participant ''S'' 2 ''C'' 9 demo_db\<rparr>)"
  by (simp add: join_room_admit_cases gaps_alone db_demo_session demo_select_S demo_count_S
        select_participant_def)
     (simp add: demo_db_def)

section \<open>Joining a meeting\<close>

text \<open>
  Claim C1, as the code has it. The join route and the database-backed \<open>join-room\<close>
  handler each read the count of live participant rows and refuse with
  \<open>Meeting is full\<close>, for an existing meeting that has not ended, whenever the count
  read has reached \<open>max_participants\<close>. Each writes the participant row in a later
  statement. Right after that write the count of the joined meeting is at most
  \<open>max_participants\<close> if the other requests did not raise the meeting's count between
  the read and the write, and the write changes the count of no other meeting. Requests
  that run between the read and the write can raise the count past the bound.
\<close>

theorem join_capacity_between_read_and_write:
  "(\<forall>meeting rest.
       select_meeting d meetingId = meeting # rest \<longrightarrow>
       m_status meeting \<noteq> ''ended'' \<longrightarrow>
       m_max_participants meeting \<le> int (current_participants d meetingId) \<longrightarrow>
       join_meeting userId meetingId now others d =
         (Inl (ApiError 400 ''Meeting is full''), d)) \<and>
   (\<forall>reply d1.
       join_meeting userId meetingId now others d = (Inr reply, d1) \<longrightarrow>
       (current_participants (others d) meetingId \<le> current_participants d meetingId \<longrightarrow>
        (\<exists>meeting rest.
            select_meeting d meetingId = meeting # rest \<and>
            int (current_participants d1 meetingId) \<le> m_max_participants meeting)) \<and>
       (\<forall>other. other \<noteq> meetingId \<longrightarrow>
            current_participants d1 other = current_participants (others d) other)) \<and>
   (\<forall>meeting rest.
       select_meeting (db st) roomId = meeting # rest \<longrightarrow>
       m_status meeting \<noteq> ''ended'' \<longrightarrow>
       m_max_participants meeting \<le> int (current_participants (db st) roomId) \<longrightarrow>
       join_room_db g sid user roomId now st = (emit_error sid ''Meeting is full'', st)) \<and>
   (\<forall>st3.
       join_room_admit g sid user roomId now st = Inr st3 \<longrightarrow>
       (current_participants (db (gap2 g (gap1 g st))) roomId
          \<le> current_participants (db st) roomId \<longrightarrow>
        (\<exists>meeting rest.
            select_meeting (db st) roomId = meeting # rest \<and>
            int (current_participants (db st3) roomId) \<le> m_max_participants meeting)) \<and>
       (\<forall>other. other \<noteq> roomId \<longrightarrow>
            current_participants (db st3) other =
              current_participants (db (gap2 g (gap1 g st))) other))"
proof (intro conjI allI impI)
  fix meeting rest
  assume "select_meeting d meetingId = meeting # rest" "m_status meeting \<noteq> ''ended''"
    "m_max_participants meeting \<le> int (current_participants d meetingId)"
  then show "join_meeting userId meetingId now others d =
      (Inl (ApiError 400 ''Meeting is full''), d)"
    by (simp add: join_meeting_def)
next
  fix reply d1
  assume j: "join_meeting userId meetingId now others d = (Inr reply, d1)"
    and quiet: "current_participants (others d) meetingId \<le> current_participants d meetingId"
  from join_meeting_Inr[OF j] obtain meeting rest where
    s: "select_meeting d meetingId = meeting # rest" and
    c: "int (current_participants d meetingId) < m_max_participants meeting" and
    d1: "d1 = insert_participant meetingId userId now (others d)"
    by blast
  have "int (current_participants d1 meetingId) \<le> m_max_participants meeting"
    using c quiet current_participants_insert_le[of meetingId userId now "others d"]
    unfolding d1 by linarith
  with s show "\<exists>meeting rest.
           select_meeting d meetingId = meeting # rest \<and>
           int (current_participants d1 meetingId) \<le> m_max_participants meeting"
    by blast
next
  fix reply d1 other
  assume j: "join_meeting userId meetingId now others d = (Inr reply, d1)"
    and o: "other \<noteq> meetingId"
  from join_meeting_Inr[OF j] have "d1 = insert_participant meetingId userId now (others d)"
    by blast
  then show "current_participants d1 other = current_participants (others d) other"
    using o by (simp add: current_participants_insert_other)
next
  fix meeting rest
  assume "select_meeting (db st) roomId = meeting # rest" "m_status meeting \<noteq> ''ended''"
    "m_max_participants meeting \<le> int (current_participants (db st) roomId)"
  then have "join_room_admit g sid user roomId now st = Inl (''Meeting is full'', st)"
    by (simp add: join_room_admit_cases)
  then show "join_room_db g sid user roomId now st = (emit_error sid ''Meeting is full'', st)"
    by (rule join_room_db_refusal)
next
  fix st3
  assume a: "join_room_admit g sid user roomId now st = Inr st3"
    and quiet: "current_participants (db (gap2 g (gap1 g st))) roomId
         \<le> current_participants (db st) roomId"
  from join_room_admit_Inr[OF a] obtain meeting rest where
    s: "select_meeting (db st) roomId = meeting # rest" and
    c: "int (current_participants (db st) roomId) < m_max_participants meeting" and
    st3: "st3 = (gap2 g (gap1 g st))
                   \<lparr>db := upsert_participant roomId user sid now (db (gap2 g (gap1 g st)))\<rparr>"
    by blast
  have w: "db st3 = upsert_participant roomId user sid now (db (gap2 g (gap1 g st)))"
    by (simp add: st3)
  have "int (current_participants (db st3) roomId) \<le> m_max_participants meeting"
    using c quiet
      current_participants_upsert_le[of roomId user sid now "db (gap2 g (gap1 g st))"]
    unfolding w by linarith
  with s show "\<exists>meeting rest.
           select_meeting (db st) roomId = meeting # rest \<and>
           int (current_participants (db st3) roomId) \<le> m_max_participants meeting"
    by blast
next
  fix st3 other
  assume a: "join_room_admit g sid user roomId now st = Inr st3" and o: "other \<noteq> roomId"
  from join_room_admit_Inr[OF a] have
    "db st3 = upsert_participant roomId user sid now (db (gap2 g (gap1 g st)))"
    by auto
  then show "current_participants (db st3) other =
      current_participants (db (gap2 g (gap1 g st))) other"
    using o by (simp add: current_participants_upsert_other)
qed

theorem join_capacity_between_read_and_write_witness:
  "join_meeting 3 ''R'' 9 id demo_db = (Inl (ApiError 400 ''Meeting is full''), demo_db) \<and>
   current_participants (snd (join_meeting 2 ''R'' 3 id demo_db1)) ''R'' = 2 \<and>
   current_participants (snd (join_meeting 2 ''R'' 3 id demo_db1)) ''S'' = 0 \<and>
   join_room_db alone ''C'' 3 ''R'' 9 demo_session =
     (emit_error ''C'' ''Meeting is full'', demo_session) \<and>
   current_participants (upsert_participant ''S'' 2 ''C'' 9 demo_db) ''S'' = 1 \<and>
   current_participants (upsert_participant ''S'' 2 ''C'' 9 demo_db) ''R'' = 2"
proof -
  note t = join_capacity_between_read_and_write
  have full: "join_meeting 3 ''R'' 9 id demo_db = (Inl (ApiError 400 ''Meeting is full''), demo_db)"
    using t[of demo_db "''R''" 3 9 id] demo_select_R demo_count_R by simp
  have c2: "current_participants (snd (join_meeting 2 ''R'' 3 id demo_db1)) ''R'' = 2"
    unfolding demo1_join_2 snd_conv
    by (simp add: current_participants_def insert_participant_def demo_db1_def)
  have c0: "current_participants (snd (join_meeting 2 ''R'' 3 id demo_db1)) ''S'' = 0"
    using t[of demo_db1 "''R''" 2 3 id] demo1_join_2 by (simp add: demo1_count_S)
  have refused: "join_room_db alone ''C'' 3 ''R'' 9 demo_session =
     (emit_error ''C'' ''Meeting is full'', demo_session)"
    using t[where st = demo_session and roomId = "''R''" and g = alone and sid = "''C''"
        and user = 3 and now = 9] demo_select_R demo_count_R
    by (simp add: db_demo_session)
  have s1: "current_participants (upsert_participant ''S'' 2 ''C'' 9 demo_db) ''S'' = 1"
    by (simp add: current_participants_def upsert_participant_def demo_db_def)
  have s2: "current_participants (upsert_participant ''S'' 2 ''C'' 9 demo_db) ''R'' = 2"
    using t[where st = demo_session and roomId = "''S''" and g = alone and sid = "''C''"
        and user = 2 and now = 9] demo_admit_2_S demo_count_R
    by (simp add: gaps_alone db_demo_session)
  from full c2 c0 refused s1 s2 show ?thesis by simp
qed

text \<open>
  Meeting \<open>R\<close> has capacity 2 and one live participant. The requests of users 2 and 3
  both read the count 1; user 3's row is inserted between the read and the insert of
  user 2, and after user 2's insert the meeting has three live participants.
\<close>

theorem interleaved_joins_exceed_capacity:
  "map m_max_participants (select_meeting demo_db1 ''R'') = [2] \<and>
   current_participants demo_db1 ''R'' = 1 \<and>
   join_meeting 3 ''R'' 2 id demo_db1 =
     (Inr \<lparr>message = ''Authorized to join meeting'', meeting_id = ''R'',
           meeting_title = ''standup'', isHost = False\<rparr>,
      insert_participant ''R'' 3 2 demo_db1) \<and>
   fst (join_meeting 2 ''R'' 3 (insert_participant ''R'' 3 2) demo_db1) =
     Inr \<lparr>message = ''Authorized to join meeting'', meeting_id = ''R'',
          meeting_title = ''standup'', isHost = False\<rparr> \<and>
   current_participants
     (snd (join_meeting 2 ''R'' 3 (insert_participant ''R'' 3 2) demo_db1)) ''R'' = 3"
proof -
  have a: "join_meeting 3 ''R'' 2 id demo_db1 =
     (Inr \<lparr>message = ''Authorized to join meeting'', meeting_id = ''R'',
           meeting_title = ''standup'', isHost = False\<rparr>,
      insert_participant ''R'' 3 2 demo_db1)"
    by (simp add: join_meeting_def demo1_select_R demo1_count_R)
  have b: "join_meeting 2 ''R'' 3 (insert_participant ''R'' 3 2) demo_db1 =
     (Inr \<lparr>message = ''Authorized to join meeting'', meeting_id = ''R'',
           meeting_title = ''standup'', isHost = False\<rparr>,
      insert_participant ''R'' 2 3 (insert_participant ''R'' 3 2 demo_db1))"
    by (simp add: join_meeting_def demo1_select_R demo1_count_R)
  have c: "current_participants
      (insert_participant ''R'' 2 3 (insert_participant ''R'' 3 2 demo_db1)) ''R'' = 3"
    by (simp add: current_participants_def insert_participant_def demo_db1_def)
  show ?thesis using a b c by (simp add: demo1_select_R demo1_count_R)
qed

text \<open>
  The first version of the \<open>join-room\<close> handler, over the room manager, reads no
  meeting and no count: socket \<open>C\<close> enters room \<open>R\<close> of the example while meeting
  \<open>R\<close> is full.
\<close>

lemma room_manager_join_checks_no_capacity:
  "current_participants (db demo_server) ''R'' = 2 \<and>
   map m_max_participants (select_meeting (db demo_server) ''R'') = [2] \<and>
   fst (http (join_meeting 3 ''R'' 9 id) demo_server) = Inl (ApiError 400 ''Meeting is full'') \<and>
   join_room ''C'' ''R'' ''3'' demo_server =
     Inr ([\<lparr>recipient = ''C'', event = ''all-users'', arg = JArr [JStr ''A'', JStr ''B'']\<rparr>,
           \<lparr>recipient = ''A'', event = ''user-joined'', arg = JStr ''C''\<rparr>,
           \<lparr>recipient = ''B'', event = ''user-joined'', arg = JStr ''C''\<rparr>],
          demo_server\<lparr>rooms := [''R'' \<mapsto> [''A'', ''B'', ''C'']],
                       io := sio_join ''C'' ''R'' demo_io\<rparr>)"
  by (simp add: demo_server_def demo_select_R demo_count_R http_def join_meeting_def
        join_room_def addUserToRoom_def emit_to_def recipients_def to_rooms_def member_of_def
        sio_join_def demo_io_def)

text \<open>
  Claim C2. For a meeting that exists, has not ended and is not full, the
  database-backed \<open>join-room\<close> handler admits the user if and only if the user is the
  meeting's host or a participant row for the meeting and the user exists when the
  handler queries it. Otherwise it emits \<open>Not authorized to join this meeting\<close> to the
  socket and writes nothing. An admitted socket gets \<open>all-users\<close> and no error, and,
  when nothing else runs until the handler ends, it is in the Socket.IO room of the
  meeting.
\<close>

theorem join_room_authorization:
  assumes sel: "select_meeting (db st) roomId = meeting # rest"
      and act: "m_status meeting \<noteq> ''ended''"
      and room: "int (current_participants (db st) roomId) < m_max_participants meeting"
  shows "(m_host_id meeting = userId \<or>
          select_participant (db (gap1 g st)) roomId userId \<noteq> [] \<longrightarrow>
            join_room_admit g sid userId roomId now st =
              Inr ((gap2 g (gap1 g st))
                \<lparr>db := upsert_participant roomId userId sid now (db (gap2 g (gap1 g st)))\<rparr>) \<and>
            recipient (hd (fst (join_room_db g sid userId roomId now st))) = sid \<and>
            event (hd (fst (join_room_db g sid userId roomId now st))) = ''all-users'' \<and>
            list_all (\<lambda>e. event e \<noteq> ''error'')
              (fst (join_room_db g sid userId roomId now st)) \<and>
            (gap3 g = id \<and> gap4 g = id \<and> gap5 g = id \<longrightarrow>
               roomId \<in> joined (io (snd (join_room_db g sid userId roomId now st))) sid \<and>
               socket_meetingId (snd (join_room_db g sid userId roomId now st)) sid =
                 Some roomId)) \<and>
         (m_host_id meeting \<noteq> userId \<and>
          select_participant (db (gap1 g st)) roomId userId = [] \<longrightarrow>
            join_room_db g sid userId roomId now st =
              (emit_error sid ''Not authorized to join this meeting'', gap1 g st))"
proof (intro conjI impI)
  assume auth: "m_host_id meeting = userId \<or>
          select_participant (db (gap1 g st)) roomId userId \<noteq> []"
  let ?st3 = "(gap2 g (gap1 g st))
                \<lparr>db := upsert_participant roomId userId sid now (db (gap2 g (gap1 g st)))\<rparr>"
  show a: "join_room_admit g sid userId roomId now st = Inr ?st3"
    using sel act room auth by (auto simp: join_room_admit_cases)
  note out = join_room_db_admitted[OF a]
  show "recipient (hd (fst (join_room_db g sid userId roomId now st))) = sid"
    unfolding out by (simp add: emit_to_def)
  show "event (hd (fst (join_room_db g sid userId roomId now st))) = ''all-users''"
    unfolding out by (simp add: emit_to_def)
  show "list_all (\<lambda>e. event e \<noteq> ''error'') (fst (join_room_db g sid userId roomId now st))"
    unfolding out by (simp add: emit_to_def list_all_iff)
  assume q: "gap3 g = id \<and> gap4 g = id \<and> gap5 g = id"
  show "roomId \<in> joined (io (snd (join_room_db g sid userId roomId now st))) sid"
    unfolding out using q by (simp add: sio_join_def)
  show "socket_meetingId (snd (join_room_db g sid userId roomId now st)) sid = Some roomId"
    unfolding out using q by simp
next
  assume "m_host_id meeting \<noteq> userId \<and>
          select_participant (db (gap1 g st)) roomId userId = []"
  then have "join_room_admit g sid userId roomId now st =
      Inl (''Not authorized to join this meeting'', gap1 g st)"
    using sel act room by (simp add: join_room_admit_cases)
  then show "join_room_db g sid userId roomId now st =
      (emit_error sid ''Not authorized to join this meeting'', gap1 g st)"
    by (rule join_room_db_refusal)
qed

theorem join_room_authorization_witness:
  "join_room_db alone ''C'' 7 ''S'' 9 demo_session =
     (emit_error ''C'' ''Not authorized to join this meeting'', demo_session) \<and>
   join_room_admit alone ''C'' 2 ''S'' 9 demo_session =
     Inr (demo_session\<lparr>db := upsert_participant ''S'' 2 ''C'' 9 demo_db\<rparr>) \<and>
   join_room_admit alone ''C'' 1 ''S'' 9 demo_session =
     Inr (demo_session\<lparr>db := upsert_participant ''S'' 1 ''C'' 9 demo_db\<rparr>)"
proof -
  define m where "m = \<lparr>m_id = ''S'', m_host_id = 1, m_title = ''review'', m_status = ''active'',
       m_max_participants = 10, m_created_at = 3, m_ended_at = None\<rparr>"
  have s: "select_meeting (db demo_session) ''S'' = m # []"
    by (simp add: db_demo_session demo_select_S m_def)
  have a: "m_status m \<noteq> ''ended''" and h: "m_host_id m = 1"
    by (simp_all add: m_def)
  have c: "int (current_participants (db demo_session) ''S'') < m_max_participants m"
    by (simp add: db_demo_session demo_count_S m_def)
  note t = join_room_authorization[OF s a c, where g = alone and sid = "''C''" and now = 9]
  have p7: "select_participant demo_db ''S'' 7 = []"
    and p2: "select_participant demo_db ''S'' 2 \<noteq> []"
    by (simp_all add: select_participant_def demo_db_def)
  have r7: "join_room_db alone ''C'' 7 ''S'' 9 demo_session =
     (emit_error ''C'' ''Not authorized to join this meeting'', demo_session)"
    using t[of 7] p7 by (simp add: gaps_alone db_demo_session h)
  have r2: "join_room_admit alone ''C'' 2 ''S'' 9 demo_session =
     Inr (demo_session\<lparr>db := upsert_participant ''S'' 2 ''C'' 9 demo_db\<rparr>)"
    using t[of 2] p2 by (simp add: gaps_alone db_demo_session)
  have r1: "join_room_admit alone ''C'' 1 ''S'' 9 demo_session =
     Inr (demo_session\<lparr>db := upsert_participant ''S'' 1 ''C'' 9 demo_db\<rparr>)"
    using t[of 1] by (simp add: gaps_alone db_demo_session h)
  from r7 r2 r1 show ?thesis by simp
qed

text \<open>
  The participant row that authorizes a user who is not the host is the one that the
  join route inserts.
\<close>

lemma join_route_inserts_authorizing_row:
  assumes "join_meeting userId meetingId now others d = (Inr reply, d1)"
  shows "select_participant d1 meetingId userId \<noteq> []"
proof -
  from join_meeting_Inr[OF assms] have "d1 = insert_participant meetingId userId now (others d)"
    by blast
  then show ?thesis
    using insert_participant_has_row[of meetingId userId now "others d"]
    by (simp add: select_participant_def filter_empty_conv list_ex_iff)
qed

text \<open>
  Claim C6. Every join that the database-backed \<open>join-room\<close> handler admits upserts
  the participant row of the meeting and the user: when there is no row, one is added,
  joined now, not left, with the socket's id; when there is one, it is updated in place
  to the socket's id, joined now and not left, and no row is added. Rows of other
  meetings and users are unchanged. So a user who had left and joins again has a live
  row with the new socket's id, and it is still there when the handler ends if nothing
  else runs until then.
\<close>

theorem join_room_upserts_participant:
  assumes adm: "join_room_admit g sid userId roomId now st = Inr st3"
      and st2: "st2 = gap2 g (gap1 g st)"
  shows "db st3 = upsert_participant roomId userId sid now (db st2) \<and>
         (select_participant (db st2) roomId userId = [] \<longrightarrow>
            meeting_participants (db st3) =
              meeting_participants (db st2) @
                [\<lparr>p_meeting_id = roomId, p_user_id = userId, p_socket_id = Some sid,
                  p_joined_at = now, p_left_at = None\<rparr>]) \<and>
         (\<forall>p ps. select_participant (db st2) roomId userId = p # ps \<longrightarrow>
            select_participant (db st3) roomId userId =
              p\<lparr>p_socket_id := Some sid, p_joined_at := now, p_left_at := None\<rparr> # ps \<and>
            length (meeting_participants (db st3)) = length (meeting_participants (db st2))) \<and>
         filter (\<lambda>p. \<not> (p_meeting_id p = roomId \<and> p_user_id p = userId))
             (meeting_participants (db st3)) =
           filter (\<lambda>p. \<not> (p_meeting_id p = roomId \<and> p_user_id p = userId))
             (meeting_participants (db st2)) \<and>
         (\<exists>p ps. select_participant (db st3) roomId userId = p # ps \<and>
            p_socket_id p = Some sid \<and> p_joined_at p = now \<and> p_left_at p = None) \<and>
         (gap3 g = id \<and> gap4 g = id \<and> gap5 g = id \<longrightarrow>
            db (snd (join_room_db g sid userId roomId now st)) = db st3)"
proof -
  from join_room_admit_Inr[OF adm] have
    w: "db st3 = upsert_participant roomId userId sid now (db st2)"
    unfolding st2 by auto
  have rows: "meeting_participants (db st3) =
      upsert_row roomId userId sid now (meeting_participants (db st2))"
    by (simp add: w upsert_participant_def)
  have absent: "meeting_participants (db st3) =
              meeting_participants (db st2) @
                [\<lparr>p_meeting_id = roomId, p_user_id = userId, p_socket_id = Some sid,
                  p_joined_at = now, p_left_at = None\<rparr>]"
    if "select_participant (db st2) roomId userId = []"
    using that unfolding rows select_participant_def by (rule upsert_row_absent)
  have present: "select_participant (db st3) roomId userId =
              p\<lparr>p_socket_id := Some sid, p_joined_at := now, p_left_at := None\<rparr> # ps \<and>
            length (meeting_participants (db st3)) = length (meeting_participants (db st2))"
    if "select_participant (db st2) roomId userId = p # ps" for p ps
    using that unfolding rows select_participant_def by (rule upsert_row_present)
  have others: "filter (\<lambda>p. \<not> (p_meeting_id p = roomId \<and> p_user_id p = userId))
             (meeting_participants (db st3)) =
           filter (\<lambda>p. \<not> (p_meeting_id p = roomId \<and> p_user_id p = userId))
             (meeting_participants (db st2))"
    unfolding rows by (rule upsert_row_others)
  have active: "\<exists>p ps. select_participant (db st3) roomId userId = p # ps \<and>
            p_socket_id p = Some sid \<and> p_joined_at p = now \<and> p_left_at p = None"
    unfolding rows select_participant_def by (rule upsert_row_hd)
  have final: "db (snd (join_room_db g sid userId roomId now st)) = db st3"
    if "gap3 g = id \<and> gap4 g = id \<and> gap5 g = id"
    unfolding join_room_db_admitted[OF adm] using that by simp
  show ?thesis using w absent present others active final by blast
qed

theorem join_room_upserts_participant_witness:
  "join_room_admit alone ''C'' 2 ''S'' 9 demo_session =
     Inr (demo_session\<lparr>db := upsert_participant ''S'' 2 ''C'' 9 demo_db\<rparr>) \<and>
   select_participant demo_db ''S'' 2 =
     [\<lparr>p_meeting_id = ''S'', p_user_id = 2, p_socket_id = None, p_joined_at = 4,
       p_left_at = Some 5\<rparr>] \<and>
   select_participant (upsert_participant ''S'' 2 ''C'' 9 demo_db) ''S'' 2 =
     [\<lparr>p_meeting_id = ''S'', p_user_id = 2, p_socket_id = Some ''C'', p_joined_at = 9,
       p_left_at = None\<rparr>] \<and>
   length (meeting_participants (upsert_participant ''S'' 2 ''C'' 9 demo_db)) = 3 \<and>
   db (snd (join_room_db alone ''C'' 2 ''S'' 9 demo_session)) =
     upsert_participant ''S'' 2 ''C'' 9 demo_db"
proof -
  have p: "select_participant demo_db ''S'' 2 =
     [\<lparr>p_meeting_id = ''S'', p_user_id = 2, p_socket_id = None, p_joined_at = 4,
       p_left_at = Some 5\<rparr>]"
    by (simp add: select_participant_def demo_db_def)
  have l: "length (meeting_participants demo_db) = 3" by (simp add: demo_db_def)
  from join_room_upserts_participant[OF demo_admit_2_S, of demo_session]
  show ?thesis using demo_admit_2_S p l by (simp add: gaps_alone db_demo_session)
qed

section \<open>Ending a meeting and kicking a participant\<close>

text \<open>
  Claim C7, as the code has it. When the host ends a meeting, the route sets the
  meeting's status to \<open>ended\<close> and marks every live participant row of the meeting
  as left, so the meeting has no live participant afterwards. It leaves the room manager
  and the Socket.IO server as they are and emits nothing: no connection is removed from
  a room and none is notified.
\<close>

theorem end_meeting_updates_directory_only:
  assumes sel: "select_meeting (db st) meetingId = meeting # others"
      and host: "m_host_id meeting = userId"
  shows "\<exists>st1.
           http (end_meeting userId meetingId now1 now2) st =
             (Inr ''Meeting ended successfully'', [], st1) \<and>
           select_meeting (db st1) meetingId =
             map (\<lambda>r. r\<lparr>m_status := ''ended'', m_ended_at := Some now1\<rparr>) (meeting # others) \<and>
           meeting_participants (db st1) =
             map (\<lambda>p. if p_meeting_id p = meetingId \<and> p_left_at p = None
                       then p\<lparr>p_left_at := Some now2\<rparr> else p)
               (meeting_participants (db st)) \<and>
           list_all (\<lambda>p. p_left_at p \<noteq> None)
             (filter (\<lambda>p. p_meeting_id p = meetingId) (meeting_participants (db st1))) \<and>
           current_participants (db st1) meetingId = 0 \<and>
           rooms st1 = rooms st \<and> io st1 = io st"
proof -
  define d where "d = update_all_left meetingId now2 (update_meeting_ended meetingId now1 (db st))"
  define st1 where "st1 = st\<lparr>db := d\<rparr>"
  have "end_meeting userId meetingId now1 now2 (db st) = (Inr ''Meeting ended successfully'', d)"
    using sel host by (simp add: end_meeting_def d_def)
  then have h: "http (end_meeting userId meetingId now1 now2) st =
      (Inr ''Meeting ended successfully'', [], st1)"
    unfolding st1_def by (rule http_reply)
  have s: "select_meeting d meetingId =
      map (\<lambda>r. r\<lparr>m_status := ''ended'', m_ended_at := Some now1\<rparr>) (meeting # others)"
    unfolding d_def select_meeting_update_all_left select_meeting_ended sel ..
  have p: "meeting_participants d =
      map (\<lambda>p. if p_meeting_id p = meetingId \<and> p_left_at p = None
                then p\<lparr>p_left_at := Some now2\<rparr> else p)
        (meeting_participants (db st))"
    by (simp add: d_def update_all_left_def participants_update_meeting_ended)
  have l: "list_all (\<lambda>p. p_left_at p \<noteq> None)
      (filter (\<lambda>p. p_meeting_id p = meetingId) (meeting_participants d))"
    unfolding d_def by (rule left_after_update_all_left)
  have c: "current_participants d meetingId = 0"
    unfolding d_def by (rule current_participants_update_all_left)
  have e: "db st1 = d" and r: "rooms st1 = rooms st" and i: "io st1 = io st"
    by (simp_all add: st1_def)
  show ?thesis
    using h s p l c r i unfolding e[symmetric] by blast
qed

theorem end_meeting_updates_directory_only_witness:
  "select_meeting (db demo_server) ''R'' =
     [\<lparr>m_id = ''R'', m_host_id = 1, m_title = ''standup'', m_status = ''active'',
       m_max_participants = 2, m_created_at = 0, m_ended_at = None\<rparr>] \<and>
   fst (http (end_meeting 1 ''R'' 9 10) demo_server) = Inr ''Meeting ended successfully'' \<and>
   current_participants (db (snd (snd (http (end_meeting 1 ''R'' 9 10) demo_server)))) ''R'' = 0 \<and>
   map m_status (select_meeting (db (snd (snd (http (end_meeting 1 ''R'' 9 10) demo_server)))) ''R'')
     = [''ended'']"
proof -
  have s: "select_meeting (db demo_server) ''R'' =
     [\<lparr>m_id = ''R'', m_host_id = 1, m_title = ''standup'', m_status = ''active'',
       m_max_participants = 2, m_created_at = 0, m_ended_at = None\<rparr>]"
    by (simp add: demo_server_def demo_select_R)
  from end_meeting_updates_directory_only[OF s, of 1 9 10] s show ?thesis
    by auto
qed

text \<open>
  The host ends meeting \<open>R\<close> of the example. Sockets \<open>A\<close> and \<open>B\<close> are still
  in the room manager's array for \<open>R\<close> and still members of the Socket.IO room
  \<open>R\<close>, and no message was emitted.
\<close>

theorem end_meeting_leaves_connections:
  "fst (http (end_meeting 1 ''R'' 9 10) demo_server) = Inr ''Meeting ended successfully'' \<and>
   fst (snd (http (end_meeting 1 ''R'' 9 10) demo_server)) = [] \<and>
   rooms (snd (snd (http (end_meeting 1 ''R'' 9 10) demo_server))) ''R'' = Some [''A'', ''B''] \<and>
   io (snd (snd (http (end_meeting 1 ''R'' 9 10) demo_server))) = demo_io \<and>
   recipients demo_io [JStr ''R''] [] = [''A'', ''B'']"
proof -
  have "end_meeting 1 ''R'' 9 10 (db demo_server) =
      (Inr ''Meeting ended successfully'',
       update_all_left ''R'' 10 (update_meeting_ended ''R'' 9 (db demo_server)))"
    by (simp add: end_meeting_def demo_server_def demo_select_R)
  then have h: "http (end_meeting 1 ''R'' 9 10) demo_server =
      (Inr ''Meeting ended successfully'', [],
       demo_server\<lparr>db := update_all_left ''R'' 10 (update_meeting_ended ''R'' 9 (db demo_server))\<rparr>)"
    by (rule http_reply)
  have r: "rooms demo_server ''R'' = Some [''A'', ''B'']" and i: "io demo_server = demo_io"
    by (simp_all add: demo_server_def)
  have m: "recipients demo_io [JStr ''R''] [] = [''A'', ''B'']"
    by (simp add: recipients_def member_of_def demo_io_def)
  show ?thesis unfolding h using r i m by simp
qed

text \<open>
  Claim C8. The kick route reads the meeting's host id from the database when the
  request arrives. It answers with success only if the requester is that host; for a
  requester who is not the host of the meeting it answers 403
  \<open>Only host can kick participants\<close> and leaves the whole state as it was: the
  participant rows, the rooms of the room manager and the Socket.IO server. Every
  request that the route answers with an error leaves the state as it was.
\<close>

theorem kick_requires_host:
  "(\<forall>msg out st1.
       http (kick_participant requester meetingId userId now) st = (Inr msg, out, st1) \<longrightarrow>
       (\<exists>meeting others.
           select_meeting (db st) meetingId = meeting # others \<and>
           m_host_id meeting = requester)) \<and>
   (\<forall>meeting others.
       select_meeting (db st) meetingId = meeting # others \<longrightarrow>
       m_host_id meeting \<noteq> requester \<longrightarrow>
       http (kick_participant requester meetingId userId now) st =
         (Inl (ApiError 403 ''Only host can kick participants''), [], st)) \<and>
   (\<forall>e out st1.
       http (kick_participant requester meetingId userId now) st = (Inl e, out, st1) \<longrightarrow>
       out = [] \<and> st1 = st)"
  by (auto simp: http_def kick_participant_def split: list.splits if_splits)

theorem kick_requires_host_witness:
  "select_meeting (db demo_server) ''R'' =
     [\<lparr>m_id = ''R'', m_host_id = 1, m_title = ''standup'', m_status = ''active'',
       m_max_participants = 2, m_created_at = 0, m_ended_at = None\<rparr>] \<and>
   http (kick_participant 2 ''R'' 1 9) demo_server =
     (Inl (ApiError 403 ''Only host can kick participants''), [], demo_server) \<and>
   fst (http (kick_participant 1 ''R'' 2 9) demo_server) = Inr ''Participant kicked successfully''"
proof -
  have s: "select_meeting (db demo_server) ''R'' =
     [\<lparr>m_id = ''R'', m_host_id = 1, m_title = ''standup'', m_status = ''active'',
       m_max_participants = 2, m_created_at = 0, m_ended_at = None\<rparr>]"
    by (simp add: demo_server_def demo_select_R)
  have k: "fst (http (kick_participant 1 ''R'' 2 9) demo_server) =
      Inr ''Participant kicked successfully''"
    by (simp add: http_def kick_participant_def s split_beta)
  from kick_requires_host[of 2 "''R''" 1 9 demo_server] s k show ?thesis by simp
qed


section \<open>Facts about objects, rooms and the handlers\<close>

lemma update_fresh: "k \<notin> fst ` set al \<Longrightarrow> AList.update k v al = al @ [(k, v)]"
  by (induction al) auto

lemma spread_distinct:
  "distinct (map fst (acc @ entries)) \<Longrightarrow> spread acc entries = acc @ entries"
proof (induction entries arbitrary: acc)
  case Nil
  then show ?case by simp
next
  case (Cons e entries)
  obtain k v where e: "e = (k, v)" by (cases e)
  from Cons.prems have fresh: "k \<notin> fst ` set acc" by (auto simp: e)
  from Cons.prems have "distinct (map fst ((acc @ [(k, v)]) @ entries))" by (simp add: e)
  from Cons.IH[OF this] show ?case by (simp add: e update_fresh[OF fresh])
qed

lemma spread_Nil_distinct: "distinct (map fst entries) \<Longrightarrow> spread [] entries = entries"
  using spread_distinct[of "[]" entries] by simp

lemma recipients_room:
  "recipients s (to_rooms (JStr r)) except =
     filter (\<lambda>sid. sid \<notin> set except \<and> r \<in> joined s sid) (sockets s)"
  by (simp add: recipients_def to_rooms_def member_of_def)

lemma emit_to_recipient:
  "filter (\<lambda>e. recipient e = b) (emit_to sids ev a) = emit_to (filter (\<lambda>sid. sid = b) sids) ev a"
  by (induction sids) (simp_all add: emit_to_def)

lemma length_emit_to: "length (emit_to sids ev a) = length sids"
  by (simp add: emit_to_def)

lemma sio_ok_connect: "sio_ok s \<Longrightarrow> sid \<notin> set (sockets s) \<Longrightarrow> sio_ok (sio_connect sid s)"
  by (auto simp: sio_ok_def sio_connect_def list_all_iff)

lemma sio_ok_join: "sio_ok s \<Longrightarrow> sio_ok (sio_join sid r s)"
  by (auto simp: sio_ok_def sio_join_def list_all_iff)

lemma sio_ok_close: "sio_ok s \<Longrightarrow> sio_ok (sio_close sid s)"
  by (auto simp: sio_ok_def sio_close_def list_all_iff distinct_removeAll)

lemma sio_ok_demo: "sio_ok demo_io"
  by (simp add: sio_ok_def demo_io_def)

lemma sio_join_idem: "sio_join sid r (sio_join sid r s) = sio_join sid r s"
  by (simp add: sio_join_def)

lemma one_own_delivery:
  assumes "sio_ok s" and "b \<in> set (sockets s)"
  shows "length (filter (\<lambda>sid. sid = b) (filter (\<lambda>sid. b \<in> joined s sid) (sockets s))) = 1"
proof -
  from assms have d: "distinct (sockets s)" and own: "b \<in> joined s b"
    by (auto simp: sio_ok_def list_all_iff)
  have "{sid. sid = b \<and> b \<in> joined s sid} \<inter> set (sockets s) = {b}"
    using own assms(2) by auto
  then show ?thesis
    using d by (simp add: distinct_length_filter)
qed

lemma addUserToRoom_Some:
  "rms r = Some members \<Longrightarrow>
     addUserToRoom r sid rms =
       Inr (filter (\<lambda>id. id \<noteq> sid) members, rms(r \<mapsto> members @ [sid]))"
  by (simp add: addUserToRoom_def)

lemma join_room_Inr:
  assumes "join_room sid roomId userId st = Inr (out, st1)"
  shows "\<exists>others rms1.
           addUserToRoom roomId sid (rooms st) = Inr (others, rms1) \<and>
           out = emit_to [sid] ''all-users'' (JArr (map JStr others)) @
                 emit_to (recipients (sio_join sid roomId (io st)) (to_rooms (JStr roomId)) [sid])
                   ''user-joined'' (JStr sid) \<and>
           st1 = st\<lparr>rooms := rms1, io := sio_join sid roomId (io st)\<rparr>"
  using assms by (auto simp: join_room_def Let_def split: sum.splits)

lemma join_room_sio_ok:
  "join_room sid roomId userId st = Inr (out, st1) \<Longrightarrow> sio_ok (io st) \<Longrightarrow> sio_ok (io st1)"
  by (auto dest!: join_room_Inr simp: sio_ok_join)

lemma disconnect_sio_ok: "sio_ok (io st) \<Longrightarrow> sio_ok (io (snd (disconnect sid st)))"
  by (simp add: disconnect_def Let_def sio_ok_close)

lemma demo_join_C_B:
  "join_room ''C'' ''B'' ''3'' demo_server =
     Inr ([\<lparr>recipient = ''C'', event = ''all-users'', arg = JArr []\<rparr>,
           \<lparr>recipient = ''B'', event = ''user-joined'', arg = JStr ''C''\<rparr>],
          demo_server\<lparr>rooms := [''R'' \<mapsto> [''A'', ''B''], ''B'' \<mapsto> [''C'']],
                       io := sio_join ''C'' ''B'' demo_io\<rparr>)"
  by (simp add: demo_server_def join_room_def addUserToRoom_def emit_to_def recipients_room
        sio_join_def demo_io_def object_prototype_names_def)

lemma screen_sharing_to_room:
  assumes "field data ''roomId'' = JStr r"
      and "distinct (map fst data)"
      and "''userId'' \<notin> fst ` set data"
  shows "on_screen_sharing k sid data st =
           (emit_to (filter (\<lambda>s. s \<noteq> sid \<and> r \<in> joined (io st) s) (sockets (io st)))
              (screen_sharing_event k) (JObj ((''userId'', JStr sid) # data)),
            st)"
proof -
  have "distinct (map fst ([(''userId'', JStr sid)] @ data))" using assms(2,3) by auto
  from spread_distinct[OF this] show ?thesis
    by (simp add: on_screen_sharing_def assms(1) recipients_room)
qed

section \<open>Signalling\<close>

text \<open>
  Claim C3, as the code has it. A signalling message (offer, answer or candidate) sent
  by connection \<open>A\<close> with target \<open>B\<close> changes no state and is emitted, with the
  payload's fields as they are and \<open>caller\<close> set to \<open>A\<close>'s id, to every connected
  socket in the Socket.IO room named \<open>B\<close>. Socket \<open>B\<close> is in that room whenever it
  is connected, whether or not the room manager lists it, and gets the event once; a
  socket that has joined a room named \<open>B\<close> gets it too. When no connected socket is
  in that room nothing is emitted, to \<open>A\<close> or to anyone.
\<close>

theorem signal_goes_to_socket_room:
  assumes target: "field payload ''target'' = JStr b"
      and keys: "distinct (map fst payload)"
      and ok: "sio_ok (io st)"
  shows "on_signal k a payload st =
           (emit_to (filter (\<lambda>sid. b \<in> joined (io st) sid) (sockets (io st)))
              (signal_event k) (JObj (AList.update ''caller'' (JStr a) payload)),
            st) \<and>
         map_of (AList.update ''caller'' (JStr a) payload) =
           (map_of payload)(''caller'' \<mapsto> JStr a) \<and>
         (b \<in> set (sockets (io st)) \<longrightarrow>
            length (filter (\<lambda>e. recipient e = b) (fst (on_signal k a payload st))) = 1) \<and>
         (list_all (\<lambda>sid. b \<notin> joined (io st) sid) (sockets (io st)) \<longrightarrow>
            fst (on_signal k a payload st) = [])"
proof -
  have eq: "on_signal k a payload st =
           (emit_to (filter (\<lambda>sid. b \<in> joined (io st) sid) (sockets (io st)))
              (signal_event k) (JObj (AList.update ''caller'' (JStr a) payload)),
            st)"
    by (simp add: on_signal_def target recipients_room spread_Nil_distinct[OF keys])
  have one: "length (filter (\<lambda>e. recipient e = b) (fst (on_signal k a payload st))) = 1"
    if "b \<in> set (sockets (io st))"
    unfolding eq fst_conv emit_to_recipient length_emit_to
    by (rule one_own_delivery[OF ok that])
  have none: "fst (on_signal k a payload st) = []"
    if "list_all (\<lambda>sid. b \<notin> joined (io st) sid) (sockets (io st))"
    unfolding eq fst_conv using that by (simp add: emit_to_def list_all_iff filter_empty_conv)
  show ?thesis using eq one none by (simp add: update_conv')
qed

theorem signal_goes_to_socket_room_witness:
  "field [(''target'', JStr ''B''), (''sdp'', JStr ''x'')] ''target'' = JStr ''B'' \<and>
   sio_ok (io demo_server) \<and>
   on_signal Answer ''A'' [(''target'', JStr ''B''), (''sdp'', JStr ''x'')] demo_server =
     ([\<lparr>recipient = ''B'', event = ''answer'',
        arg = JObj [(''target'', JStr ''B''), (''sdp'', JStr ''x''), (''caller'', JStr ''A'')]\<rparr>],
      demo_server)"
proof -
  have t: "field [(''target'', JStr ''B''), (''sdp'', JStr ''x'')] ''target'' = JStr ''B''"
    by (simp add: field_def)
  have k: "distinct (map fst [(''target'', JStr ''B''), (''sdp'', JStr ''x'')])" by simp
  have o: "sio_ok (io demo_server)"
    by (simp add: demo_server_def sio_ok_demo)
  have f: "filter (\<lambda>sid. ''B'' \<in> joined (io demo_server) sid) (sockets (io demo_server)) = [''B'']"
    by (simp add: demo_server_def demo_io_def)
  from signal_goes_to_socket_room[OF t k o, of Answer "''A''"] t o f show ?thesis
    by (simp add: emit_to_def)
qed

text \<open>
  Socket \<open>C\<close> of the example is connected and is in no room of the room manager;
  an offer with target \<open>C\<close> is delivered to it. After \<open>C\<close> has sent
  \<open>join-room\<close> with \<open>B\<close>'s id as the room id, an offer with target \<open>B\<close> is
  delivered to \<open>B\<close> and to \<open>C\<close>.
\<close>

theorem signal_reaches_other_sockets:
  "''C'' \<notin> \<Union> (set ` ran (rooms demo_server)) \<and>
   on_signal Offer ''A'' [(''target'', JStr ''C''), (''sdp'', JStr ''x'')] demo_server =
     ([\<lparr>recipient = ''C'', event = ''offer'',
        arg = JObj [(''target'', JStr ''C''), (''sdp'', JStr ''x''), (''caller'', JStr ''A'')]\<rparr>],
      demo_server) \<and>
   snd (projr (join_room ''C'' ''B'' ''3'' demo_server)) =
     demo_server\<lparr>rooms := [''R'' \<mapsto> [''A'', ''B''], ''B'' \<mapsto> [''C'']],
                  io := sio_join ''C'' ''B'' demo_io\<rparr> \<and>
   fst (on_signal Offer ''A'' [(''target'', JStr ''B''), (''sdp'', JStr ''x'')]
          (demo_server\<lparr>rooms := [''R'' \<mapsto> [''A'', ''B''], ''B'' \<mapsto> [''C'']],
                        io := sio_join ''C'' ''B'' demo_io\<rparr>)) =
     [\<lparr>recipient = ''B'', event = ''offer'',
       arg = JObj [(''target'', JStr ''B''), (''sdp'', JStr ''x''), (''caller'', JStr ''A'')]\<rparr>,
      \<lparr>recipient = ''C'', event = ''offer'',
       arg = JObj [(''target'', JStr ''B''), (''sdp'', JStr ''x''), (''caller'', JStr ''A'')]\<rparr>]"
proof -
  have "ran (rooms demo_server) = {[''A'', ''B'']}"
    by (simp add: demo_server_def)
  then have r: "''C'' \<notin> \<Union> (set ` ran (rooms demo_server))" by simp
  have i: "io demo_server = demo_io" by (simp add: demo_server_def)
  have "recipients demo_io (to_rooms (JStr ''C'')) [] = [''C'']"
    by (simp add: recipients_room demo_io_def)
  then have c: "on_signal Offer ''A'' [(''target'', JStr ''C''), (''sdp'', JStr ''x'')] demo_server =
     ([\<lparr>recipient = ''C'', event = ''offer'',
        arg = JObj [(''target'', JStr ''C''), (''sdp'', JStr ''x''), (''caller'', JStr ''A'')]\<rparr>],
      demo_server)"
    by (simp add: on_signal_def field_def i emit_to_def)
  have "recipients (sio_join ''C'' ''B'' demo_io) (to_rooms (JStr ''B'')) [] = [''B'', ''C'']"
    by (simp add: recipients_room sio_join_def demo_io_def)
  then have b: "fst (on_signal Offer ''A'' [(''target'', JStr ''B''), (''sdp'', JStr ''x'')]
          (demo_server\<lparr>rooms := [''R'' \<mapsto> [''A'', ''B''], ''B'' \<mapsto> [''C'']],
                        io := sio_join ''C'' ''B'' demo_io\<rparr>)) =
     [\<lparr>recipient = ''B'', event = ''offer'',
       arg = JObj [(''target'', JStr ''B''), (''sdp'', JStr ''x''), (''caller'', JStr ''A'')]\<rparr>,
      \<lparr>recipient = ''C'', event = ''offer'',
       arg = JObj [(''target'', JStr ''B''), (''sdp'', JStr ''x''), (''caller'', JStr ''A'')]\<rparr>]"
    by (simp add: on_signal_def field_def emit_to_def)
  from r c b demo_join_C_B show ?thesis by simp
qed

section \<open>Joining a room twice\<close>

text \<open>
  Claim C5, at the first version of the \<open>join-room\<close> handler. Socket \<open>C\<close> joins
  room \<open>R\<close> of the example twice with nothing in between. The second join is not
  refused and \<open>addUserToRoom\<close> pushes the id again: the array of \<open>R\<close> then holds
  \<open>C\<close> twice.
\<close>

theorem second_join_room_is_no_noop:
  "join_room ''C'' ''R'' ''3'' demo_server =
     Inr ([\<lparr>recipient = ''C'', event = ''all-users'', arg = JArr [JStr ''A'', JStr ''B'']\<rparr>,
           \<lparr>recipient = ''A'', event = ''user-joined'', arg = JStr ''C''\<rparr>,
           \<lparr>recipient = ''B'', event = ''user-joined'', arg = JStr ''C''\<rparr>],
          demo_server\<lparr>rooms := [''R'' \<mapsto> [''A'', ''B'', ''C'']],
                       io := sio_join ''C'' ''R'' demo_io\<rparr>) \<and>
   join_room ''C'' ''R'' ''3''
       (demo_server\<lparr>rooms := [''R'' \<mapsto> [''A'', ''B'', ''C'']],
                     io := sio_join ''C'' ''R'' demo_io\<rparr>) =
     Inr ([\<lparr>recipient = ''C'', event = ''all-users'', arg = JArr [JStr ''A'', JStr ''B'']\<rparr>,
           \<lparr>recipient = ''A'', event = ''user-joined'', arg = JStr ''C''\<rparr>,
           \<lparr>recipient = ''B'', event = ''user-joined'', arg = JStr ''C''\<rparr>],
          demo_server\<lparr>rooms := [''R'' \<mapsto> [''A'', ''B'', ''C'', ''C'']],
                       io := sio_join ''C'' ''R'' demo_io\<rparr>) \<and>
   count_list [''A'', ''B'', ''C'', ''C''] ''C'' = 2"
  by (simp add: demo_server_def join_room_def addUserToRoom_def emit_to_def recipients_room
        sio_join_def demo_io_def)

text \<open>
  This is so for every room and state: a second \<open>join-room\<close> emits what the first
  emitted and appends one more occurrence of the socket's id.
\<close>

lemma room_manager_second_join:
  assumes first: "join_room sid roomId userId st = Inr (out, st1)"
  shows "\<exists>members.
           rooms st1 roomId = Some (members @ [sid]) \<and>
           hd out = \<lparr>recipient = sid, event = ''all-users'',
                      arg = JArr (map JStr (filter (\<lambda>id. id \<noteq> sid) members))\<rparr> \<and>
           join_room sid roomId userId st1 =
             Inr (out, st1\<lparr>rooms := (rooms st1)(roomId \<mapsto> members @ [sid] @ [sid])\<rparr>)"
proof -
  define members where "members = (case rooms st roomId of None \<Rightarrow> [] | Some ms \<Rightarrow> ms)"
  define io1 where "io1 = sio_join sid roomId (io st)"
  from join_room_Inr[OF first] obtain others rms1 where
    add: "addUserToRoom roomId sid (rooms st) = Inr (others, rms1)" and
    out: "out = emit_to [sid] ''all-users'' (JArr (map JStr others)) @
                emit_to (recipients io1 (to_rooms (JStr roomId)) [sid]) ''user-joined'' (JStr sid)" and
    st1: "st1 = st\<lparr>rooms := rms1, io := io1\<rparr>"
    unfolding io1_def by blast
  have rms1: "rms1 = (rooms st)(roomId \<mapsto> members @ [sid])"
    and others: "others = filter (\<lambda>id. id \<noteq> sid) members"
    using addUserToRoom_Inr[OF add] by (simp_all add: members_def)
  have r1: "rooms st1 roomId = Some (members @ [sid])" by (simp add: st1 rms1)
  have h: "hd out = \<lparr>recipient = sid, event = ''all-users'',
                      arg = JArr (map JStr (filter (\<lambda>id. id \<noteq> sid) members))\<rparr>"
    by (simp add: out others emit_to_def)
  have add2: "addUserToRoom roomId sid (rooms st1) =
      Inr (others, (rooms st1)(roomId \<mapsto> members @ [sid] @ [sid]))"
    using addUserToRoom_Some[of "rooms st1" roomId "members @ [sid]" sid] r1
    by (simp add: others)
  have io2: "sio_join sid roomId (io st1) = io1"
    by (simp add: st1 io1_def sio_join_idem)
  have "join_room sid roomId userId st1 =
      Inr (out, st1\<lparr>rooms := (rooms st1)(roomId \<mapsto> members @ [sid] @ [sid]), io := io1\<rparr>)"
    unfolding join_room_def Let_def add2 io2 out by simp
  moreover have "st1\<lparr>io := io1\<rparr> = st1" by (simp add: st1)
  ultimately have "join_room sid roomId userId st1 =
      Inr (out, st1\<lparr>rooms := (rooms st1)(roomId \<mapsto> members @ [sid] @ [sid])\<rparr>)"
    by (simp add: st1)
  with r1 h show ?thesis by blast
qed

text \<open>
  The database-backed handler does not duplicate. When it runs alone and has admitted a
  socket, a second \<open>join-room\<close> of that socket for the same meeting is either refused
  because the meeting is full, or emits what the first emitted and leaves the number of
  participant rows and the Socket.IO rooms as they are.
\<close>

lemma upsert_row_again:
  "upsert_row m u sid now2 (upsert_row m u sid now1 ps) = upsert_row m u sid now2 ps"
  by (induction ps) auto

lemma length_upsert_row_again:
  "length (upsert_row m u sid now2 (upsert_row m u sid now1 ps)) =
     length (upsert_row m u sid now1 ps)"
proof -
  obtain p qs where
    "filter (\<lambda>p. p_meeting_id p = m \<and> p_user_id p = u) (upsert_row m u sid now1 ps) = p # qs"
    using upsert_row_hd[of m u sid now1 ps] by blast
  from upsert_row_present[OF this] show ?thesis by blast
qed

lemma map_filter_upsert_row_now:
  assumes "\<And>p. f (p\<lparr>p_socket_id := Some sid, p_joined_at := now2, p_left_at := None\<rparr>) =
               f (p\<lparr>p_socket_id := Some sid, p_joined_at := now1, p_left_at := None\<rparr>)"
      and "f \<lparr>p_meeting_id = m, p_user_id = u, p_socket_id = Some sid,
              p_joined_at = now2, p_left_at = None\<rparr> =
           f \<lparr>p_meeting_id = m, p_user_id = u, p_socket_id = Some sid,
              p_joined_at = now1, p_left_at = None\<rparr>"
  shows "List.map_filter f (upsert_row m u sid now2 ps) =
         List.map_filter f (upsert_row m u sid now1 ps)"
  by (induction ps) (auto simp: map_filter_simps assms split: option.splits)

lemma select_peers_upsert_now:
  "select_peers (upsert_participant m u sid now2 d) x y =
     select_peers (upsert_participant m u sid now1 d) x y"
proof -
  have "List.map_filter
     (\<lambda>p. case p_socket_id p of
             None \<Rightarrow> None
           | Some s \<Rightarrow> if p_meeting_id p = x \<and> p_left_at p = None \<and> s \<noteq> y then Some s else None)
     (upsert_row m u sid now2 (meeting_participants d)) =
   List.map_filter
     (\<lambda>p. case p_socket_id p of
             None \<Rightarrow> None
           | Some s \<Rightarrow> if p_meeting_id p = x \<and> p_left_at p = None \<and> s \<noteq> y then Some s else None)
     (upsert_row m u sid now1 (meeting_participants d))"
    by (rule map_filter_upsert_row_now) simp_all
  then show ?thesis by (simp add: select_peers_def upsert_participant_def)
qed

lemma upsert_participant_again:
  "upsert_participant m u sid now2 (upsert_participant m u sid now1 d) =
     upsert_participant m u sid now2 d"
  by (simp add: upsert_participant_def upsert_row_again)

lemma join_room_db_twice:
  assumes adm: "join_room_admit alone sid u m now1 st = Inr st3"
      and st1: "st1 = snd (join_room_db alone sid u m now1 st)"
  shows "join_room_db alone sid u m now2 st1 = (emit_error sid ''Meeting is full'', st1) \<or>
         (fst (join_room_db alone sid u m now2 st1) = fst (join_room_db alone sid u m now1 st) \<and>
          length (meeting_participants (db (snd (join_room_db alone sid u m now2 st1)))) =
            length (meeting_participants (db st1)) \<and>
          io (snd (join_room_db alone sid u m now2 st1)) = io st1)"
proof -
  from join_room_admit_Inr[OF adm] obtain meeting rest where
    sel: "select_meeting (db st) m = meeting # rest" and
    act: "m_status meeting \<noteq> ''ended''" and
    st3: "st3 = st\<lparr>db := upsert_participant m u sid now1 (db st)\<rparr>"
    by (auto simp: gaps_alone)
  define U1 where "U1 = upsert_participant m u sid now1 (db st)"
  define io1 where "io1 = sio_join sid m (io st)"
  have first: "join_room_db alone sid u m now1 st =
      (emit_to [sid] ''all-users'' (JArr (map JStr (select_peers U1 m sid))) @
       emit_to (recipients io1 (to_rooms (JStr m)) [sid]) ''user-joined'' (JStr sid),
       st\<lparr>db := U1, io := io1, socket_meetingId := (socket_meetingId st)(sid \<mapsto> m)\<rparr>)"
    unfolding join_room_db_admitted[OF adm] st3 U1_def io1_def by (simp add: gaps_alone)
  have s1: "st1 = st\<lparr>db := U1, io := io1, socket_meetingId := (socket_meetingId st)(sid \<mapsto> m)\<rparr>"
    unfolding st1 first by simp
  have d1: "db st1 = U1" and i1: "io st1 = io1"
    and m1: "socket_meetingId st1 = (socket_meetingId st)(sid \<mapsto> m)"
    by (simp_all add: s1)
  have sel1: "select_meeting (db st1) m = meeting # rest"
    by (simp add: d1 U1_def select_meeting_upsert_participant sel)
  have row1: "select_participant (db st1) m u \<noteq> []"
    using upsert_row_hd[of m u sid now1 "meeting_participants (db st)"]
    by (auto simp: d1 U1_def select_participant_def upsert_participant_def)
  show ?thesis
  proof (cases "m_max_participants meeting \<le> int (current_participants (db st1) m)")
    case True
    then have "join_room_admit alone sid u m now2 st1 = Inl (''Meeting is full'', st1)"
      using sel1 act by (simp add: join_room_admit_cases)
    from join_room_db_refusal[OF this] show ?thesis by simp
  next
    case False
    define U2 where "U2 = upsert_participant m u sid now2 (db st)"
    have u: "upsert_participant m u sid now2 (db st1) = U2"
      by (simp add: d1 U1_def U2_def upsert_participant_again)
    have adm2: "join_room_admit alone sid u m now2 st1 = Inr (st1\<lparr>db := U2\<rparr>)"
      using sel1 act False row1 by (simp add: join_room_admit_cases gaps_alone u)
    have j: "sio_join sid m io1 = io1"
      by (simp add: io1_def sio_join_idem)
    have second: "join_room_db alone sid u m now2 st1 =
      (emit_to [sid] ''all-users'' (JArr (map JStr (select_peers U2 m sid))) @
       emit_to (recipients io1 (to_rooms (JStr m)) [sid]) ''user-joined'' (JStr sid),
       st\<lparr>db := U2, io := io1, socket_meetingId := (socket_meetingId st)(sid \<mapsto> m)\<rparr>)"
      unfolding join_room_db_admitted[OF adm2] by (simp add: gaps_alone s1 j)
    have peers: "select_peers U2 m sid = select_peers U1 m sid"
      unfolding U1_def U2_def by (rule select_peers_upsert_now)
    have len: "length (meeting_participants U2) = length (meeting_participants U1)"
      using length_upsert_row_again[of m u sid now2 now1 "meeting_participants (db st)"]
      by (simp add: U1_def U2_def upsert_participant_def upsert_row_again)
    show ?thesis unfolding second first by (simp add: peers len d1 i1)
  qed
qed

section \<open>Screen sharing\<close>

text \<open>
  Claim C9, at a payload that carries a \<open>userId\<close> of its own. The handler builds
  \<open>{userId: socket.id, ...data}\<close>: the spread comes last, so the payload's
  \<open>userId\<close> replaces the sender's id in the event that the other member of the room
  receives. The signalling handlers write \<open>caller\<close> after the spread, and there the
  payload's own \<open>caller\<close> is replaced by the sender's id.
\<close>

theorem screen_sharing_tag_from_payload:
  "on_screen_sharing Started ''A'' [(''roomId'', JStr ''R''), (''userId'', JStr ''mallory'')]
       demo_server =
     ([\<lparr>recipient = ''B'', event = ''screen-sharing-started'',
        arg = JObj [(''userId'', JStr ''mallory''), (''roomId'', JStr ''R'')]\<rparr>],
      demo_server) \<and>
   on_signal Offer ''A'' [(''target'', JStr ''B''), (''caller'', JStr ''mallory'')] demo_server =
     ([\<lparr>recipient = ''B'', event = ''offer'',
        arg = JObj [(''target'', JStr ''B''), (''caller'', JStr ''A'')]\<rparr>],
      demo_server)"
proof -
  have i: "io demo_server = demo_io" by (simp add: demo_server_def)
  have a: "recipients demo_io (to_rooms (JStr ''R'')) [''A''] = [''B'']"
    by (simp add: recipients_room demo_io_def)
  have b: "recipients demo_io (to_rooms (JStr ''B'')) [] = [''B'']"
    by (simp add: recipients_room demo_io_def)
  show ?thesis
    by (simp add: on_screen_sharing_def on_signal_def field_def i a b emit_to_def)
qed

end
